theory Spec2Isabelle
  imports Complex_Main
begin

section \<open>Python values, exceptions and messages\<close>

text \<open>
  A value that comes out of \<^verbatim>\<open>response.json()\<close> or is handed to a validator.  A JSON
  object is the list of its members in order; the keys of an object are distinct, as they
  are in a Python dict.
\<close>

datatype json =
    JNull
  | JBool bool
  | JNum int
  | JStr string
  | JArr "json list"
  | JObj "(string \<times> json) list"

text \<open>
  The exception classes of \<^verbatim>\<open>exceptions.py\<close> that the sources raise, and the built-in
  exceptions that escape where the source has no handler for them.
\<close>

datatype error_kind =
    IRPValidationError
  | IRPAPIError
  | IRPJobError
  | IRPWorkflowError
  | IRPFileError
  | IRPReferenceDataError
  | KeyError
  | IndexError
  | TypeError
  | AttributeError
  | ValueError
  | JSONDecodeError
  | HTTPError
  | RequestException

text \<open>
  The message of an exception is an f-string: literal text, interpolated values and
  interpolated exceptions, kept in order.  How \<^verbatim>\<open>str()\<close> prints a value is left to
  Python; which values a message holds is what the source decides.
\<close>

datatype frag = Lit string | Val json | Exc error
and error = Error error_kind "frag list"

fun kind_of :: "error \<Rightarrow> error_kind" where
  "kind_of (Error k m) = k"

fun message_of :: "error \<Rightarrow> frag list" where
  "message_of (Error k m) = m"

definition type_name :: "json \<Rightarrow> string" where
  "type_name v = (case v of
       JNull \<Rightarrow> ''NoneType'' | JBool b \<Rightarrow> ''bool'' | JNum n \<Rightarrow> ''int''
     | JStr s \<Rightarrow> ''str'' | JArr xs \<Rightarrow> ''list'' | JObj kvs \<Rightarrow> ''dict'')"

text \<open>\<^verbatim>\<open>d[key]\<close> with a string key: KeyError on a dict without the key, TypeError on
  anything that is not a dict.\<close>

definition subscript :: "json \<Rightarrow> string \<Rightarrow> error + json" where
  "subscript d k = (case d of
       JObj kvs \<Rightarrow> (case map_of kvs k of
                      None \<Rightarrow> Inl (Error KeyError [Val (JStr k)])
                    | Some v \<Rightarrow> Inr v)
     | _ \<Rightarrow> Inl (Error TypeError []))"

text \<open>\<^verbatim>\<open>d.get(key, default)\<close>: only a dict has the method.\<close>

definition get_default :: "json \<Rightarrow> string \<Rightarrow> json \<Rightarrow> error + json" where
  "get_default d k dflt = (case d of
       JObj kvs \<Rightarrow> (case map_of kvs k of None \<Rightarrow> Inr dflt | Some v \<Rightarrow> Inr v)
     | _ \<Rightarrow> Inl (Error AttributeError []))"

text \<open>\<^verbatim>\<open>status in STATUSES\<close>, for a collection of status strings: the value is a member
  when it equals one of them.\<close>

definition status_in :: "json \<Rightarrow> string list \<Rightarrow> bool" where
  "status_in v statuses = (v \<in> set (map JStr statuses))"

subsection \<open>Strings\<close>

text \<open>
  A string is a list of characters with code points 0 to 255 (ASCII and the Latin-1
  supplement).  The characters \<^verbatim>\<open>str.strip()\<close> removes: tab, line feed, vertical tab, form
  feed, carriage return, the four separators 0x1C to 0x1F, space, next line (0x85) and the
  no-break space (0xA0).
\<close>

definition is_space :: "char \<Rightarrow> bool" where
  "is_space c = (of_char c \<in> {9, 10, 11, 12, 13, 28, 29, 30, 31, 32, 133, 160 :: nat})"

text \<open>The letters that have another case: a to z, and 0xE0 to 0xFE but the division sign
  0xF7, with their capitals 0x20 below.\<close>

definition small_letters :: string where
  "small_letters = ''abcdefghijklmnopqrstuvwxyz'' @
     [CHR 0xE0, CHR 0xE1, CHR 0xE2, CHR 0xE3, CHR 0xE4, CHR 0xE5, CHR 0xE6, CHR 0xE7,
      CHR 0xE8, CHR 0xE9, CHR 0xEA, CHR 0xEB, CHR 0xEC, CHR 0xED, CHR 0xEE, CHR 0xEF,
      CHR 0xF0, CHR 0xF1, CHR 0xF2, CHR 0xF3, CHR 0xF4, CHR 0xF5, CHR 0xF6,
      CHR 0xF8, CHR 0xF9, CHR 0xFA, CHR 0xFB, CHR 0xFC, CHR 0xFD, CHR 0xFE]"

definition capital_letters :: string where
  "capital_letters = ''ABCDEFGHIJKLMNOPQRSTUVWXYZ'' @
     [CHR 0xC0, CHR 0xC1, CHR 0xC2, CHR 0xC3, CHR 0xC4, CHR 0xC5, CHR 0xC6, CHR 0xC7,
      CHR 0xC8, CHR 0xC9, CHR 0xCA, CHR 0xCB, CHR 0xCC, CHR 0xCD, CHR 0xCE, CHR 0xCF,
      CHR 0xD0, CHR 0xD1, CHR 0xD2, CHR 0xD3, CHR 0xD4, CHR 0xD5, CHR 0xD6,
      CHR 0xD8, CHR 0xD9, CHR 0xDA, CHR 0xDB, CHR 0xDC, CHR 0xDD, CHR 0xDE]"

text \<open>
  \<^verbatim>\<open>str.upper()\<close>, character by character: a small letter gives its capital and the sharp
  s (0xDF) gives SS.  The capitals of the micro sign (0xB5) and of y with diaeresis (0xFF)
  are characters above 255, which a string of the model cannot hold: \<open>upper_in_range\<close> says
  that a text has neither, and what is claimed of the code through \<open>upper\<close> is stated for
  such texts.
\<close>

definition upper_char :: "char \<Rightarrow> string" where
  "upper_char c =
     (if c = CHR 0xDF then ''SS''
      else (case map_of (zip small_letters capital_letters) c of None \<Rightarrow> [c] | Some u \<Rightarrow> [u]))"

definition upper :: "string \<Rightarrow> string" where
  "upper s = concat (map upper_char s)"

definition upper_in_range :: "string \<Rightarrow> bool" where
  "upper_in_range s = (CHR 0xB5 \<notin> set s \<and> CHR 0xFF \<notin> set s)"

text \<open>\<^verbatim>\<open>str.lower()\<close>: a capital gives its small letter.\<close>

definition lower_char :: "char \<Rightarrow> char" where
  "lower_char c =
     (case map_of (zip capital_letters small_letters) c of None \<Rightarrow> c | Some l \<Rightarrow> l)"

definition lower :: "string \<Rightarrow> string" where
  "lower s = map lower_char s"

definition lstrip_slash :: "string \<Rightarrow> string" where
  "lstrip_slash s = dropWhile (\<lambda>c. c = CHR ''/'') s"

text \<open>The single quote, for the quoted names in messages.\<close>

definition sq :: string where
  "sq = [CHR 0x27]"

fun join :: "string \<Rightarrow> string list \<Rightarrow> string" where
  "join sep [] = []"
| "join sep [x] = x"
| "join sep (x # y # ys) = x @ sep @ join sep (y # ys)"

fun str_nat :: "nat \<Rightarrow> string" where
  "str_nat n = (if n < 10 then [''0123456789'' ! n]
                else str_nat (n div 10) @ [''0123456789'' ! (n mod 10)])"

definition str_int :: "int \<Rightarrow> string" where
  "str_int i = (if i < 0 then CHR ''-'' # str_nat (nat (- i)) else str_nat (nat i))"

section \<open>Validators (validators.py)\<close>

definition validate_non_empty_string :: "json \<Rightarrow> string \<Rightarrow> error + unit" where
  "validate_non_empty_string v param_name = (case v of
       JStr s \<Rightarrow>
         if list_all is_space s
         then Inl (Error IRPValidationError [Lit param_name, Lit '' cannot be empty''])
         else Inr ()
     | _ \<Rightarrow> Inl (Error IRPValidationError
              [Lit param_name, Lit '' must be a string, got '', Lit (type_name v)]))"

text \<open>A Python bool is an int: \<^verbatim>\<open>True\<close> passes as 1 and \<^verbatim>\<open>False\<close> fails as 0.\<close>

definition validate_positive_int :: "json \<Rightarrow> string \<Rightarrow> error + unit" where
  "validate_positive_int v param_name = (case v of
       JNum n \<Rightarrow>
         if n \<le> 0
         then Inl (Error IRPValidationError [Lit param_name, Lit '' must be positive, got '', Val v])
         else Inr ()
     | JBool b \<Rightarrow>
         if \<not> b
         then Inl (Error IRPValidationError [Lit param_name, Lit '' must be positive, got '', Val v])
         else Inr ()
     | _ \<Rightarrow> Inl (Error IRPValidationError
              [Lit param_name, Lit '' must be an integer, got '', Lit (type_name v)]))"

definition validate_list_not_empty :: "json \<Rightarrow> string \<Rightarrow> error + unit" where
  "validate_list_not_empty v param_name = (case v of
       JArr xs \<Rightarrow>
         if length xs = 0
         then Inl (Error IRPValidationError [Lit param_name, Lit '' cannot be empty''])
         else Inr ()
     | _ \<Rightarrow> Inl (Error IRPValidationError
              [Lit param_name, Lit '' must be a list, got '', Lit (type_name v)]))"

section \<open>The transport and the clock\<close>

text \<open>
  What \<^verbatim>\<open>Client.request\<close> hands to the session, and what comes back.  The extra
  headers, the request timeout and the streaming flag are passed through to the session
  and play no part below.
\<close>

record http_request =
  req_method :: string
  req_url :: string
  req_params :: "(string \<times> json) list"
  req_json :: "json option"

record http_response =
  status_code :: int
  resp_headers :: "(string \<times> string) list"
  resp_text :: string
  resp_json :: "json option"

text \<open>
  The world outside the program: the wall clock that \<^verbatim>\<open>time.time()\<close> reads, in
  seconds, and the requests sent so far.  The session is a script: its answer to the
  \<open>n\<close>-th request (counting from 0) is the time the exchange takes and either a
  response or nothing, when the session raises a \<^verbatim>\<open>RequestException\<close>.  Everything
  but an exchange and a sleep takes no time.
\<close>

record world =
  clock :: real
  sent :: "http_request list"

record client =
  base_url :: string
  exchange :: "nat \<Rightarrow> http_request \<Rightarrow> real \<times> http_response option"

text \<open>An exchange takes its time and is recorded.\<close>

definition advance :: "real \<Rightarrow> http_request \<Rightarrow> world \<Rightarrow> world" where
  "advance d rq w = w\<lparr>clock := clock w + d, sent := sent w @ [rq]\<rparr>"

definition sleep :: "int \<Rightarrow> world \<Rightarrow> world" where
  "sleep seconds w = w\<lparr>clock := clock w + real_of_int seconds\<rparr>"

text \<open>The header mapping of a response compares names without regard to case.\<close>

definition header :: "http_response \<Rightarrow> string \<Rightarrow> string option" where
  "header r name = map_of (map (\<lambda>(k, v). (lower k, v)) (resp_headers r)) (lower name)"

section \<open>Client (client.py)\<close>

definition truthy :: "string option \<Rightarrow> bool" where
  "truthy s = (case s of None \<Rightarrow> False | Some t \<Rightarrow> t \<noteq> [])"

text \<open>\<^verbatim>\<open>raise_for_status\<close> raises for the codes 400 to 599.\<close>

definition request ::
  "client \<Rightarrow> string \<Rightarrow> string \<Rightarrow> string option \<Rightarrow> string option \<Rightarrow> (string \<times> json) list \<Rightarrow>
   json option \<Rightarrow> world \<Rightarrow> (error + http_response) \<times> world" where
  "request cl meth path full_url base params body w =
     (case validate_non_empty_string (JStr meth) ''method'' of
        Inl e \<Rightarrow> (Inl e, w)
      | Inr _ \<Rightarrow>
          let url = (if truthy full_url then the full_url
                     else if truthy base then the base @ ''/'' @ lstrip_slash path
                     else base_url cl @ ''/'' @ lstrip_slash path);
              rq = \<lparr>req_method = meth, req_url = url, req_params = params, req_json = body\<rparr>;
              (d, answer) = exchange cl (length (sent w)) rq;
              w' = advance d rq w
          in (case answer of
                None \<Rightarrow>
                  (Inl (Error IRPAPIError [Lit ''Request error: '', Exc (Error RequestException [])]), w')
              | Some r \<Rightarrow>
                  if 400 \<le> status_code r \<and> status_code r < 600
                  then (Inl (Error IRPAPIError
                          ([Lit ''HTTP request failed: '', Exc (Error HTTPError []), Lit '' ''] @
                           (case resp_json r of
                              Some b \<Rightarrow> [Lit '' | server: '', Val b]
                            | None \<Rightarrow> [Lit '' | text: '', Lit (take 500 (resp_text r))]))), w')
                  else (Inr r, w')))"

text \<open>\<^verbatim>\<open>response.json()\<close>: the parsed body, or the decoder's exception.\<close>

definition json_of :: "http_response \<Rightarrow> error + json" where
  "json_of r = (case resp_json r of None \<Rightarrow> Inl (Error JSONDecodeError []) | Some j \<Rightarrow> Inr j)"

text \<open>
  \<^verbatim>\<open>constants.py\<close> is not among the sources: the two status collections and the
  endpoint templates are parameters.  A template stands for its \<^verbatim>\<open>.format(...)\<close>, a
  function from the identifier to the path.
\<close>

record constants =
  WORKFLOW_COMPLETED_STATUSES :: "string list"
  WORKFLOW_IN_PROGRESS_STATUSES :: "string list"
  GET_WORKFLOWS :: string
  GET_WORKFLOW_BY_ID :: "int \<Rightarrow> string"
  GET_GEOHAZ_JOB :: "int \<Rightarrow> string"
  SEARCH_PORTFOLIOS :: "json \<Rightarrow> string"
  CREATE_PORTFOLIO :: "json \<Rightarrow> string"

definition get_workflow :: "client \<Rightarrow> constants \<Rightarrow> int \<Rightarrow> world \<Rightarrow> (error + json) \<times> world" where
  "get_workflow cl K workflow_id w =
     (case validate_positive_int (JNum workflow_id) ''workflow_id'' of
        Inl e \<Rightarrow> (Inl e, w)
      | Inr _ \<Rightarrow>
          (case request cl ''GET'' (GET_WORKFLOW_BY_ID K workflow_id) None None [] None w of
             (Inl e, w1) \<Rightarrow>
               (Inl (Error IRPAPIError
                  [Lit ''Failed to get workflow status for workflow ID '', Val (JNum workflow_id),
                   Lit '': '', Exc e]), w1)
           | (Inr r, w1) \<Rightarrow>
               (case json_of r of
                  Inl e \<Rightarrow>
                    (Inl (Error IRPAPIError
                       [Lit ''Failed to get workflow status for workflow ID '', Val (JNum workflow_id),
                        Lit '': '', Exc e]), w1)
                | Inr j \<Rightarrow> (Inr j, w1))))"

text \<open>The two subscripts of the \<^verbatim>\<open>try\<close> block of the pollers by identifier:
  \<^verbatim>\<open>status = job_data['status']; progress = job_data['progress']\<close>.\<close>

definition status_and_progress :: "json \<Rightarrow> error + json \<times> json" where
  "status_and_progress job_data =
     (case subscript job_data ''status'' of
        Inl e \<Rightarrow> Inl e
      | Inr status \<Rightarrow>
          (case subscript job_data ''progress'' of
             Inl e \<Rightarrow> Inl e
           | Inr progress \<Rightarrow> Inr (status, progress)))"

text \<open>The \<^verbatim>\<open>while True\<close> loop of \<^verbatim>\<open>poll_workflow_to_completion\<close>; \<open>start\<close> is the clock
  read before the loop.\<close>

partial_function (option) poll_workflow_to_completion_loop ::
  "client \<Rightarrow> constants \<Rightarrow> int \<Rightarrow> int \<Rightarrow> int \<Rightarrow> real \<Rightarrow> world \<Rightarrow> ((error + json) \<times> world) option" where
  "poll_workflow_to_completion_loop cl K workflow_id interval timeout start w =
     (case get_workflow cl K workflow_id w of
        (Inl e, w1) \<Rightarrow> Some (Inl e, w1)
      | (Inr job_data, w1) \<Rightarrow>
          (case status_and_progress job_data of
             Inl e \<Rightarrow>
               Some (Inl (Error IRPAPIError
                  [Lit ''Missing 'status' or 'progress' in job response for workflow ID '',
                   Val (JNum workflow_id), Lit '': '', Exc e]), w1)
           | Inr (status, progress) \<Rightarrow>
               if status_in status (WORKFLOW_COMPLETED_STATUSES K) then Some (Inr job_data, w1)
               else if clock w1 - start > real_of_int timeout
               then Some (Inl (Error IRPJobError
                  [Lit ''Risk data workflow ID '', Val (JNum workflow_id),
                   Lit '' did not complete within '', Val (JNum timeout),
                   Lit '' seconds. Last status: '', Val status]), w1)
               else poll_workflow_to_completion_loop cl K workflow_id interval timeout start
                      (sleep interval w1)))"

definition poll_workflow_to_completion ::
  "client \<Rightarrow> constants \<Rightarrow> int \<Rightarrow> int \<Rightarrow> int \<Rightarrow> world \<Rightarrow> ((error + json) \<times> world) option" where
  "poll_workflow_to_completion cl K workflow_id interval timeout w =
     (case validate_positive_int (JNum workflow_id) ''workflow_id'' of
        Inl e \<Rightarrow> Some (Inl e, w)
      | Inr _ \<Rightarrow>
     (case validate_positive_int (JNum interval) ''interval'' of
        Inl e \<Rightarrow> Some (Inl e, w)
      | Inr _ \<Rightarrow>
     (case validate_positive_int (JNum timeout) ''timeout'' of
        Inl e \<Rightarrow> Some (Inl e, w)
      | Inr _ \<Rightarrow>
          poll_workflow_to_completion_loop cl K workflow_id interval timeout (clock w) w)))"

text \<open>The loop of \<^verbatim>\<open>poll_workflow\<close>, by URL: a missing \<^verbatim>\<open>status\<close> reads as the empty
  string, and nothing here catches an exception.\<close>

partial_function (option) poll_workflow_loop ::
  "client \<Rightarrow> constants \<Rightarrow> string \<Rightarrow> int \<Rightarrow> int \<Rightarrow> real \<Rightarrow> world \<Rightarrow>
   ((error + http_response) \<times> world) option" where
  "poll_workflow_loop cl K workflow_url interval timeout start w =
     (case request cl ''GET'' '''' (Some workflow_url) None [] None w of
        (Inl e, w1) \<Rightarrow> Some (Inl e, w1)
      | (Inr response, w1) \<Rightarrow>
          (case json_of response of
             Inl e \<Rightarrow> Some (Inl e, w1)
           | Inr workflow_data \<Rightarrow>
               (case get_default workflow_data ''status'' (JStr '''') of
                  Inl e \<Rightarrow> Some (Inl e, w1)
                | Inr status \<Rightarrow>
                    if status_in status (WORKFLOW_COMPLETED_STATUSES K) then Some (Inr response, w1)
                    else if clock w1 - start > real_of_int timeout
                    then Some (Inl (Error IRPWorkflowError
                       [Lit ''Workflow did not complete within '', Val (JNum timeout),
                        Lit '' seconds. Last status: '', Val status]), w1)
                    else poll_workflow_loop cl K workflow_url interval timeout start
                           (sleep interval w1))))"

definition poll_workflow ::
  "client \<Rightarrow> constants \<Rightarrow> string \<Rightarrow> int \<Rightarrow> int \<Rightarrow> world \<Rightarrow>
   ((error + http_response) \<times> world) option" where
  "poll_workflow cl K workflow_url interval timeout w =
     (case validate_non_empty_string (JStr workflow_url) ''workflow_url'' of
        Inl e \<Rightarrow> Some (Inl e, w)
      | Inr _ \<Rightarrow>
     (case validate_positive_int (JNum interval) ''interval'' of
        Inl e \<Rightarrow> Some (Inl e, w)
      | Inr _ \<Rightarrow>
     (case validate_positive_int (JNum timeout) ''timeout'' of
        Inl e \<Rightarrow> Some (Inl e, w)
      | Inr _ \<Rightarrow> poll_workflow_loop cl K workflow_url interval timeout (clock w) w)))"

subsection \<open>Batch polling over the listing endpoint\<close>

text \<open>What \<^verbatim>\<open>list.extend\<close> iterates over: the elements of a list, the characters of a
  string, the keys of a dict; nothing else is iterable.\<close>

definition py_iter :: "json \<Rightarrow> error + json list" where
  "py_iter v = (case v of
       JArr xs \<Rightarrow> Inr xs
     | JStr s \<Rightarrow> Inr (map (\<lambda>c. JStr [c]) s)
     | JObj kvs \<Rightarrow> Inr (map (\<lambda>kv. JStr (fst kv)) kvs)
     | _ \<Rightarrow> Inl (Error TypeError []))"

text \<open>\<^verbatim>\<open>len(all_workflows) >= total_match_count\<close>: an int compares with a number (and
  with a bool, as 0 or 1), and with nothing else.\<close>

definition len_ge :: "nat \<Rightarrow> json \<Rightarrow> error + bool" where
  "len_ge n tmc = (case tmc of
       JNum t \<Rightarrow> Inr (int n \<ge> t)
     | JBool b \<Rightarrow> Inr (int n \<ge> (if b then 1 else 0))
     | _ \<Rightarrow> Inl (Error TypeError []))"

definition page_params :: "int list \<Rightarrow> int \<Rightarrow> (string \<times> json) list" where
  "page_params workflow_ids offset =
     [(''ids'', JStr (join '','' (map str_int workflow_ids))),
      (''limit'', JNum 100),
      (''offset'', JNum offset)]"

text \<open>
  The inner \<^verbatim>\<open>while True\<close> of the two listing pollers
  (\<^verbatim>\<open>Client.poll_workflow_batch_to_completion\<close> and
  \<^verbatim>\<open>MRIImportManager.poll_import_job_batch_to_completion\<close> hold the same text), entered
  with \<open>offset = 0\<close> and \<open>all_workflows = []\<close>.  It gives the last response and the
  workflows of all pages.  No clock is read inside: the loop ends only when the fetched
  count reaches the count the server reports.
\<close>

partial_function (option) fetch_workflow_pages ::
  "client \<Rightarrow> constants \<Rightarrow> int list \<Rightarrow> int \<Rightarrow> json list \<Rightarrow> world \<Rightarrow>
   ((error + http_response \<times> json list) \<times> world) option" where
  "fetch_workflow_pages cl K workflow_ids offset all_workflows w =
     (case request cl ''GET'' (GET_WORKFLOWS K) None None (page_params workflow_ids offset) None w of
        (Inl e, w1) \<Rightarrow> Some (Inl e, w1)
      | (Inr response, w1) \<Rightarrow>
          (case json_of response of
             Inl e \<Rightarrow> Some (Inl e, w1)
           | Inr response_data \<Rightarrow>
               (case subscript response_data ''totalMatchCount'' of
                  Inl e \<Rightarrow>
                    Some (Inl (Error IRPAPIError
                       [Lit ''Missing 'totalMatchCount' in workflow batch response: '', Exc e]), w1)
                | Inr total_match_count \<Rightarrow>
                    (case get_default response_data ''workflows'' (JArr []) of
                       Inl e \<Rightarrow> Some (Inl e, w1)
                     | Inr workflows \<Rightarrow>
                         (case py_iter workflows of
                            Inl e \<Rightarrow> Some (Inl e, w1)
                          | Inr ws \<Rightarrow>
                              (case len_ge (length (all_workflows @ ws)) total_match_count of
                                 Inl e \<Rightarrow> Some (Inl e, w1)
                               | Inr enough \<Rightarrow>
                                   if enough then Some (Inr (response, all_workflows @ ws), w1)
                                   else fetch_workflow_pages cl K workflow_ids (offset + 100)
                                          (all_workflows @ ws) w1))))))"

text \<open>The scan \<^verbatim>\<open>for workflow in all_workflows\<close>: the first status found in the
  in-progress collection makes the tick incomplete.\<close>

fun all_completed :: "string list \<Rightarrow> json list \<Rightarrow> error + bool" where
  "all_completed in_progress [] = Inr True"
| "all_completed in_progress (workflow # rest) =
     (case get_default workflow ''status'' (JStr '''') of
        Inl e \<Rightarrow> Inl e
      | Inr status \<Rightarrow>
          if status_in status in_progress then Inr False
          else all_completed in_progress rest)"

text \<open>The outer loop of \<^verbatim>\<open>Client.poll_workflow_batch_to_completion\<close>.  It returns the
  last response; the combined list it stores into the parsed data comes with it.\<close>

partial_function (option) poll_workflow_batch_to_completion_loop ::
  "client \<Rightarrow> constants \<Rightarrow> int list \<Rightarrow> int \<Rightarrow> int \<Rightarrow> real \<Rightarrow> world \<Rightarrow>
   ((error + http_response \<times> json list) \<times> world) option" where
  "poll_workflow_batch_to_completion_loop cl K workflow_ids interval timeout start w =
     (case fetch_workflow_pages cl K workflow_ids 0 [] w of
        None \<Rightarrow> None
      | Some (Inl e, w1) \<Rightarrow> Some (Inl e, w1)
      | Some (Inr (response, all_workflows), w1) \<Rightarrow>
          (case all_completed (WORKFLOW_IN_PROGRESS_STATUSES K) all_workflows of
             Inl e \<Rightarrow> Some (Inl e, w1)
           | Inr completed \<Rightarrow>
               if completed then Some (Inr (response, all_workflows), w1)
               else if clock w1 - start > real_of_int timeout
               then Some (Inl (Error IRPWorkflowError
                  [Lit ''Batch workflows did not complete within '', Val (JNum timeout),
                   Lit '' seconds'']), w1)
               else poll_workflow_batch_to_completion_loop cl K workflow_ids interval timeout start
                      (sleep interval w1)))"

definition poll_workflow_batch_to_completion ::
  "client \<Rightarrow> constants \<Rightarrow> int list \<Rightarrow> int \<Rightarrow> int \<Rightarrow> world \<Rightarrow>
   ((error + http_response \<times> json list) \<times> world) option" where
  "poll_workflow_batch_to_completion cl K workflow_ids interval timeout w =
     (case validate_list_not_empty (JArr (map JNum workflow_ids)) ''workflow_ids'' of
        Inl e \<Rightarrow> Some (Inl e, w)
      | Inr _ \<Rightarrow>
     (case validate_positive_int (JNum interval) ''interval'' of
        Inl e \<Rightarrow> Some (Inl e, w)
      | Inr _ \<Rightarrow>
     (case validate_positive_int (JNum timeout) ''timeout'' of
        Inl e \<Rightarrow> Some (Inl e, w)
      | Inr _ \<Rightarrow>
          poll_workflow_batch_to_completion_loop cl K workflow_ids interval timeout (clock w) w)))"

subsection \<open>Submission, then polling\<close>

text \<open>\<^verbatim>\<open>utils.get_location_header\<close>.\<close>

definition get_location_header :: "http_response \<Rightarrow> string \<Rightarrow> error + string" where
  "get_location_header response error_context =
     (case header response ''location'' of
        None \<Rightarrow> Inl (Error IRPAPIError [Lit ''Location header missing from '', Lit error_context])
      | Some v \<Rightarrow> Inr v)"


section \<open>The pollers of the managers\<close>

subsection \<open>MRIImportManager.poll_import_job_batch_to_completion (mri_import.py)\<close>

text \<open>The outer loop of the import poller: the pagination of
  \<open>fetch_workflow_pages\<close>, the same scan, and the list of workflows as the result.\<close>

partial_function (option) poll_import_job_batch_to_completion_loop ::
  "client \<Rightarrow> constants \<Rightarrow> int list \<Rightarrow> int \<Rightarrow> int \<Rightarrow> real \<Rightarrow> world \<Rightarrow>
   ((error + json list) \<times> world) option" where
  "poll_import_job_batch_to_completion_loop cl K workflow_ids interval timeout start w =
     (case fetch_workflow_pages cl K workflow_ids 0 [] w of
        None \<Rightarrow> None
      | Some (Inl e, w1) \<Rightarrow> Some (Inl e, w1)
      | Some (Inr (response, all_workflows), w1) \<Rightarrow>
          (case all_completed (WORKFLOW_IN_PROGRESS_STATUSES K) all_workflows of
             Inl e \<Rightarrow> Some (Inl e, w1)
           | Inr completed \<Rightarrow>
               if completed then Some (Inr all_workflows, w1)
               else if clock w1 - start > real_of_int timeout
               then Some (Inl (Error IRPJobError
                  [Lit ''Batch import workflows did not complete within '', Val (JNum timeout),
                   Lit '' seconds'']), w1)
               else poll_import_job_batch_to_completion_loop cl K workflow_ids interval timeout start
                      (sleep interval w1)))"

definition poll_import_job_batch_to_completion ::
  "client \<Rightarrow> constants \<Rightarrow> int list \<Rightarrow> int \<Rightarrow> int \<Rightarrow> world \<Rightarrow>
   ((error + json list) \<times> world) option" where
  "poll_import_job_batch_to_completion cl K workflow_ids interval timeout w =
     (case validate_list_not_empty (JArr (map JNum workflow_ids)) ''workflow_ids'' of
        Inl e \<Rightarrow> Some (Inl e, w)
      | Inr _ \<Rightarrow>
     (case validate_positive_int (JNum interval) ''interval'' of
        Inl e \<Rightarrow> Some (Inl e, w)
      | Inr _ \<Rightarrow>
     (case validate_positive_int (JNum timeout) ''timeout'' of
        Inl e \<Rightarrow> Some (Inl e, w)
      | Inr _ \<Rightarrow>
          poll_import_job_batch_to_completion_loop cl K workflow_ids interval timeout (clock w) w)))"

subsection \<open>PortfolioManager: the geohaz pollers (portfolio.py)\<close>

definition get_geohaz_job :: "client \<Rightarrow> constants \<Rightarrow> int \<Rightarrow> world \<Rightarrow> (error + json) \<times> world" where
  "get_geohaz_job cl K job_id w =
     (case validate_positive_int (JNum job_id) ''job_id'' of
        Inl e \<Rightarrow> (Inl e, w)
      | Inr _ \<Rightarrow>
          (case request cl ''GET'' (GET_GEOHAZ_JOB K job_id) None None [] None w of
             (Inl e, w1) \<Rightarrow>
               (Inl (Error IRPAPIError
                  [Lit ''Failed to get geohaz job status for job ID '', Val (JNum job_id),
                   Lit '': '', Exc e]), w1)
           | (Inr r, w1) \<Rightarrow>
               (case json_of r of
                  Inl e \<Rightarrow>
                    (Inl (Error IRPAPIError
                       [Lit ''Failed to get geohaz job status for job ID '', Val (JNum job_id),
                        Lit '': '', Exc e]), w1)
                | Inr j \<Rightarrow> (Inr j, w1))))"

partial_function (option) poll_geohaz_job_to_completion_loop ::
  "client \<Rightarrow> constants \<Rightarrow> int \<Rightarrow> int \<Rightarrow> int \<Rightarrow> real \<Rightarrow> world \<Rightarrow> ((error + json) \<times> world) option" where
  "poll_geohaz_job_to_completion_loop cl K job_id interval timeout start w =
     (case get_geohaz_job cl K job_id w of
        (Inl e, w1) \<Rightarrow> Some (Inl e, w1)
      | (Inr job_data, w1) \<Rightarrow>
          (case status_and_progress job_data of
             Inl e \<Rightarrow>
               Some (Inl (Error IRPAPIError
                  [Lit ''Missing 'status' or 'progress' in job response for job ID '',
                   Val (JNum job_id), Lit '': '', Exc e]), w1)
           | Inr (status, progress) \<Rightarrow>
               if status_in status (WORKFLOW_COMPLETED_STATUSES K) then Some (Inr job_data, w1)
               else if clock w1 - start > real_of_int timeout
               then Some (Inl (Error IRPJobError
                  [Lit ''GeoHaz job ID '', Val (JNum job_id),
                   Lit '' did not complete within '', Val (JNum timeout),
                   Lit '' seconds. Last status: '', Val status]), w1)
               else poll_geohaz_job_to_completion_loop cl K job_id interval timeout start
                      (sleep interval w1)))"

definition poll_geohaz_job_to_completion ::
  "client \<Rightarrow> constants \<Rightarrow> int \<Rightarrow> int \<Rightarrow> int \<Rightarrow> world \<Rightarrow> ((error + json) \<times> world) option" where
  "poll_geohaz_job_to_completion cl K job_id interval timeout w =
     (case validate_positive_int (JNum job_id) ''job_id'' of
        Inl e \<Rightarrow> Some (Inl e, w)
      | Inr _ \<Rightarrow>
     (case validate_positive_int (JNum interval) ''interval'' of
        Inl e \<Rightarrow> Some (Inl e, w)
      | Inr _ \<Rightarrow>
     (case validate_positive_int (JNum timeout) ''timeout'' of
        Inl e \<Rightarrow> Some (Inl e, w)
      | Inr _ \<Rightarrow> poll_geohaz_job_to_completion_loop cl K job_id interval timeout (clock w) w)))"

text \<open>
  The \<^verbatim>\<open>for job_id in job_ids\<close> of \<^verbatim>\<open>poll_geohaz_job_batch_to_completion\<close>, with its
  two variables \<open>all_jobs\<close> and \<open>all_completed\<close>: one status call per job; an in-progress
  status empties \<open>all_jobs\<close> and leaves the loop, any other status sets \<open>all_completed\<close>.
\<close>

fun geohaz_batch_scan ::
  "client \<Rightarrow> constants \<Rightarrow> int list \<Rightarrow> json list \<Rightarrow> bool \<Rightarrow> world \<Rightarrow>
   (error + json list \<times> bool) \<times> world" where
  "geohaz_batch_scan cl K [] all_jobs completed w = (Inr (all_jobs, completed), w)"
| "geohaz_batch_scan cl K (job_id # rest) all_jobs completed w =
     (case get_geohaz_job cl K job_id w of
        (Inl e, w1) \<Rightarrow> (Inl e, w1)
      | (Inr workflow_response, w1) \<Rightarrow>
          (case subscript workflow_response ''status'' of
             Inl e \<Rightarrow>
               (Inl (Error IRPAPIError
                  [Lit ''Missing 'status' in workflow response for job ID '', Val (JNum job_id),
                   Lit '': '', Exc e]), w1)
           | Inr status \<Rightarrow>
               if status_in status (WORKFLOW_IN_PROGRESS_STATUSES K)
               then (Inr ([], completed), w1)
               else geohaz_batch_scan cl K rest (all_jobs @ [workflow_response]) True w1))"

partial_function (option) poll_geohaz_job_batch_to_completion_loop ::
  "client \<Rightarrow> constants \<Rightarrow> int list \<Rightarrow> int \<Rightarrow> int \<Rightarrow> real \<Rightarrow> world \<Rightarrow>
   ((error + json list) \<times> world) option" where
  "poll_geohaz_job_batch_to_completion_loop cl K job_ids interval timeout start w =
     (case geohaz_batch_scan cl K job_ids [] False w of
        (Inl e, w1) \<Rightarrow> Some (Inl e, w1)
      | (Inr (all_jobs, completed), w1) \<Rightarrow>
          if completed then Some (Inr all_jobs, w1)
          else if clock w1 - start > real_of_int timeout
          then Some (Inl (Error IRPJobError
             [Lit ''Batch geohaz jobs did not complete within '', Val (JNum timeout),
              Lit '' seconds'']), w1)
          else poll_geohaz_job_batch_to_completion_loop cl K job_ids interval timeout start
                 (sleep interval w1))"

definition poll_geohaz_job_batch_to_completion ::
  "client \<Rightarrow> constants \<Rightarrow> int list \<Rightarrow> int \<Rightarrow> int \<Rightarrow> world \<Rightarrow>
   ((error + json list) \<times> world) option" where
  "poll_geohaz_job_batch_to_completion cl K job_ids interval timeout w =
     (case validate_list_not_empty (JArr (map JNum job_ids)) ''job_ids'' of
        Inl e \<Rightarrow> Some (Inl e, w)
      | Inr _ \<Rightarrow>
     (case validate_positive_int (JNum interval) ''interval'' of
        Inl e \<Rightarrow> Some (Inl e, w)
      | Inr _ \<Rightarrow>
     (case validate_positive_int (JNum timeout) ''timeout'' of
        Inl e \<Rightarrow> Some (Inl e, w)
      | Inr _ \<Rightarrow>
          poll_geohaz_job_batch_to_completion_loop cl K job_ids interval timeout (clock w) w)))"

section \<open>Utilities (utils.py)\<close>

text \<open>\<^verbatim>\<open>location.split('/')[-1]\<close>: what follows the last slash.\<close>

definition last_segment :: "string \<Rightarrow> string" where
  "last_segment s = rev (takeWhile (\<lambda>c. c \<noteq> CHR ''/'') (rev s))"

definition extract_id_from_location_header :: "http_response \<Rightarrow> string \<Rightarrow> error + string" where
  "extract_id_from_location_header response error_context =
     (case get_location_header response error_context of
        Inl e \<Rightarrow> Inl e
      | Inr location \<Rightarrow>
          if last_segment location = []
          then Inl (Error IRPAPIError
                 [Lit ''Could not extract ID from Location header: '', Lit location])
          else Inr (last_segment location))"

subsection \<open>Credentials\<close>

text \<open>
  \<^verbatim>\<open>base64.b64decode(v).decode("utf-8")\<close> is the library's: the decoder \<open>dec\<close> is a
  parameter, which gives the text or the exception the library raises.
\<close>

definition decode_base64_field :: "(json \<Rightarrow> error + string) \<Rightarrow> json \<Rightarrow> string \<Rightarrow> error + string" where
  "decode_base64_field dec encoded_value field_name =
     (case dec encoded_value of
        Inl e \<Rightarrow>
          Inl (Error IRPAPIError
            [Lit (''Failed to decode base64 field '' @ sq), Lit field_name, Lit (sq @ '': ''), Exc e])
      | Inr s \<Rightarrow> Inr s)"

definition required_fields :: "string list" where
  "required_fields = [''accessKeyId'', ''secretAccessKey'', ''sessionToken'', ''s3Path'', ''s3Region'']"

text \<open>
  The payload is a dict, as the signature says.  The five values of the result are
  computed in the order of the dict display; the first exception ends the evaluation.  The
  subscripts cannot fail once no field is missing, so the handler for other exceptions has
  nothing to catch.
\<close>

definition decode_mri_credentials ::
  "(json \<Rightarrow> error + string) \<Rightarrow> (string \<times> json) list \<Rightarrow> error + (string \<times> string) list" where
  "decode_mri_credentials dec response_json =
     (let missing = filter (\<lambda>f. map_of response_json f = None) required_fields in
      if missing \<noteq> []
      then Inl (Error IRPAPIError
             [Lit ''MRI credentials response missing fields: '', Lit (join '', '' missing)])
      else
        (case decode_base64_field dec (the (map_of response_json ''accessKeyId'')) ''accessKeyId'' of
           Inl e \<Rightarrow> Inl e
         | Inr access_key \<Rightarrow>
        (case decode_base64_field dec (the (map_of response_json ''secretAccessKey'')) ''secretAccessKey'' of
           Inl e \<Rightarrow> Inl e
         | Inr secret_key \<Rightarrow>
        (case decode_base64_field dec (the (map_of response_json ''sessionToken'')) ''sessionToken'' of
           Inl e \<Rightarrow> Inl e
         | Inr session_token \<Rightarrow>
        (case decode_base64_field dec (the (map_of response_json ''s3Path'')) ''s3Path'' of
           Inl e \<Rightarrow> Inl e
         | Inr s3_path \<Rightarrow>
        (case decode_base64_field dec (the (map_of response_json ''s3Region'')) ''s3Region'' of
           Inl e \<Rightarrow> Inl e
         | Inr s3_region \<Rightarrow>
             Inr [(''aws_access_key_id'', access_key),
                  (''aws_secret_access_key'', secret_key),
                  (''aws_session_token'', session_token),
                  (''s3_path'', s3_path),
                  (''s3_region'', s3_region)]))))))"

subsection \<open>Lookup by name in a list\<close>

text \<open>The generator handed to \<^verbatim>\<open>next\<close>: the items are tried in order, and the first
  whose name equals the target ends the search.\<close>

fun first_match :: "string \<Rightarrow> string \<Rightarrow> json list \<Rightarrow> error + json option" where
  "first_match name_field target_name [] = Inr None"
| "first_match name_field target_name (item # rest) =
     (case get_default item name_field JNull of
        Inl e \<Rightarrow> Inl e
      | Inr v \<Rightarrow>
          if v = JStr target_name then Inr (Some item)
          else first_match name_field target_name rest)"

fun names_of :: "string \<Rightarrow> json list \<Rightarrow> error + json list" where
  "names_of name_field [] = Inr []"
| "names_of name_field (item # rest) =
     (case get_default item name_field (JStr ''<unnamed>'') of
        Inl e \<Rightarrow> Inl e
      | Inr v \<Rightarrow>
          (case names_of name_field rest of
             Inl e \<Rightarrow> Inl e
           | Inr vs \<Rightarrow> Inr (v # vs)))"

text \<open>\<^verbatim>\<open>', '.join(names)\<close> takes strings only.\<close>

fun strings_of :: "json list \<Rightarrow> error + string list" where
  "strings_of [] = Inr []"
| "strings_of (JStr s # rest) =
     (case strings_of rest of Inl e \<Rightarrow> Inl e | Inr ss \<Rightarrow> Inr (s # ss))"
| "strings_of (v # rest) = Inl (Error TypeError [])"

definition find_reference_data_by_name ::
  "json list \<Rightarrow> string \<Rightarrow> string \<Rightarrow> string \<Rightarrow> error + json" where
  "find_reference_data_by_name data_list target_name name_field data_type =
     (if data_list = []
      then Inl (Error IRPReferenceDataError [Lit ''No '', Lit data_type, Lit '' available to search''])
      else
        (case first_match name_field target_name data_list of
           Inl e \<Rightarrow> Inl e
         | Inr (Some item) \<Rightarrow> Inr item
         | Inr None \<Rightarrow>
             (case names_of name_field (take 5 data_list) of
                Inl e \<Rightarrow> Inl e
              | Inr available_names \<Rightarrow>
                  (case strings_of available_names of
                     Inl e \<Rightarrow> Inl e
                   | Inr names \<Rightarrow>
                       Inl (Error IRPReferenceDataError
                         [Lit data_type, Lit ('' '' @ sq), Lit target_name,
                          Lit (sq @ '' not found. Available: ''),
                          Lit (join '', '' names @
                               (if length data_list > 5
                                then '', ... ('' @ str_nat (length data_list - 5) @ '' more)''
                                else []))])))))"

section \<open>MRIImportManager (mri_import.py)\<close>

subsection \<open>The lookups of submit_mri_import_job\<close>

text \<open>
  The two lookups that open \<^verbatim>\<open>submit_mri_import_job\<close>, each on the list its search
  returned (\<^verbatim>\<open>edm.py\<close>, with \<^verbatim>\<open>search_edms\<close>, is not among the sources).  They give the
  exposure identifier and the portfolio identifier the rest of the operation works with.
\<close>

text \<open>\<^verbatim>\<open>xs[0]\<close> on a list.\<close>

definition first_of :: "json list \<Rightarrow> error + json" where
  "first_of xs = (case xs of [] \<Rightarrow> Inl (Error IndexError []) | x # _ \<Rightarrow> Inr x)"

definition mri_lookup_edm :: "string \<Rightarrow> json list \<Rightarrow> error + json" where
  "mri_lookup_edm edm_name edms =
     (if length edms \<noteq> 1
      then Inl (Error IRPAPIError
             [Lit ''Expected 1 EDM with name '', Lit edm_name, Lit '', found '',
              Val (JNum (int (length edms)))])
      else
        (case first_of edms of
           Inl e \<Rightarrow>
             Inl (Error IRPAPIError
               [Lit (''Failed to extract exposure ID for EDM '' @ sq), Lit edm_name,
                Lit (sq @ '': ''), Exc e])
         | Inr edm \<Rightarrow>
             (case subscript edm ''exposureId'' of
                Inl e \<Rightarrow>
                  Inl (Error IRPAPIError
                    [Lit (''Failed to extract exposure ID for EDM '' @ sq), Lit edm_name,
                     Lit (sq @ '': ''), Exc e])
              | Inr exposure_id \<Rightarrow> Inr exposure_id)))"

definition mri_lookup_portfolio :: "string \<Rightarrow> json list \<Rightarrow> error + json" where
  "mri_lookup_portfolio portfolio_name portfolios =
     (if length portfolios = 0
      then Inl (Error IRPAPIError
             [Lit ''Portfolio with name '', Lit portfolio_name, Lit '' not found''])
      else if length portfolios > 1
      then Inl (Error IRPAPIError
             [Val (JNum (int (length portfolios))), Lit '' portfolios found with name '',
              Lit portfolio_name, Lit '', please use a unique name''])
      else
        (case first_of portfolios of
           Inl e \<Rightarrow>
             Inl (Error IRPAPIError
               [Lit (''Failed to extract portfolio ID for portfolio '' @ sq), Lit portfolio_name,
                Lit (sq @ '': ''), Exc e])
         | Inr portfolio \<Rightarrow>
             (case subscript portfolio ''portfolioId'' of
                Inl e \<Rightarrow>
                  Inl (Error IRPAPIError
                    [Lit (''Failed to extract portfolio ID for portfolio '' @ sq), Lit portfolio_name,
                     Lit (sq @ '': ''), Exc e])
              | Inr portfolio_id \<Rightarrow> Inr portfolio_id)))"

subsection \<open>Synchronising the mapping with the column labels of the files\<close>

text \<open>\<^verbatim>\<open>item['source'].upper()\<close>: the item is a dict with a string under \<^verbatim>\<open>source\<close>, or
  the expression raises.\<close>

definition source_upper :: "json \<Rightarrow> error + string" where
  "source_upper item =
     (case subscript item ''source'' of
        Inl e \<Rightarrow> Inl e
      | Inr (JStr s) \<Rightarrow> Inr (upper s)
      | Inr _ \<Rightarrow> Inl (Error AttributeError []))"

text \<open>The set comprehension \<^verbatim>\<open>{item['source'].upper() for item in items}\<close>; only
  membership is asked of the set, so a list stands for it.\<close>

fun existing_sources_upper :: "json list \<Rightarrow> error + string list" where
  "existing_sources_upper [] = Inr []"
| "existing_sources_upper (item # rest) =
     (case source_upper item of
        Inl e \<Rightarrow> Inl e
      | Inr s \<Rightarrow>
          (case existing_sources_upper rest of
             Inl e \<Rightarrow> Inl e
           | Inr ss \<Rightarrow> Inr (s # ss)))"

text \<open>The loop \<^verbatim>\<open>for header in headers\<close> on a list of items: the set of existing
  sources is the one computed before the loop.\<close>

fun add_missing_loop :: "string list \<Rightarrow> string list \<Rightarrow> json list \<Rightarrow> bool \<Rightarrow> json list \<times> bool" where
  "add_missing_loop existing [] items modified = (items, modified)"
| "add_missing_loop existing (hdr # rest) items modified =
     (if upper hdr \<in> set existing
      then add_missing_loop existing rest items modified
      else add_missing_loop existing rest
             (items @ [JObj [(''source'', JStr (upper hdr)),
                             (''destination'', JStr (upper hdr))]])
             True)"

text \<open>
  \<^verbatim>\<open>_add_missing_sources(headers, items)\<close>: the result is the object \<open>items\<close> after the
  call, and the flag.  The object is what the mapping holds under its key, so it need not
  be a list: the comprehension iterates over what can be iterated, and \<^verbatim>\<open>append\<close> exists
  on a list only.
\<close>

definition add_missing_sources :: "string list \<Rightarrow> json \<Rightarrow> error + json \<times> bool" where
  "add_missing_sources headers items =
     (case py_iter items of
        Inl e \<Rightarrow> Inl e
      | Inr its \<Rightarrow>
          (case existing_sources_upper its of
             Inl e \<Rightarrow> Inl e
           | Inr existing \<Rightarrow>
               (case items of
                  JArr xs \<Rightarrow>
                    (case add_missing_loop existing headers xs False of
                       (xs', modified) \<Rightarrow> Inr (JArr xs', modified))
                | _ \<Rightarrow>
                    if headers = [] then Inr (items, False)
                    else Inl (Error AttributeError []))))"

text \<open>The list a dict holds under a key is changed in place: the dict shows the new list
  under the same key.\<close>

definition set_key :: "string \<Rightarrow> json \<Rightarrow> (string \<times> json) list \<Rightarrow> (string \<times> json) list" where
  "set_key k v kvs = map (\<lambda>kv. if fst kv = k then (k, v) else kv) kvs"

text \<open>
  \<^verbatim>\<open>_sync_mapping_with_csv_headers\<close>, on what its three reads give when they succeed:
  the parsed content of the mapping file (\<^verbatim>\<open>json.load\<close>) and the two lists
  \<open>account_headers\<close> and \<open>location_headers\<close>, which are the column labels of the data
  frames, \<^verbatim>\<open>list(pd.read_csv(path, nrows=0, sep='\t').columns)\<close>.  What pandas makes of the
  first line of a file is the library's and not part of the model: it splits the line at
  tabs and gives a repeated label a suffix (ZIP, then ZIP.1), so the labels are those of
  the header row only when no label is repeated.  The result is the exception or whether
  the file was written, and the content of the mapping file afterwards.
  \<^verbatim>\<open>mapping.get(key, [])\<close> of an absent key is a fresh list that the mapping does not hold.
\<close>

definition sync_mapping_with_csv_headers ::
  "json \<Rightarrow> string list \<Rightarrow> string list \<Rightarrow> (error + bool) \<times> json" where
  "sync_mapping_with_csv_headers mapping account_headers location_headers =
     (case mapping of
        JObj kvs \<Rightarrow>
          (case add_missing_sources account_headers
                  (case map_of kvs ''accountItems'' of None \<Rightarrow> JArr [] | Some v \<Rightarrow> v) of
             Inl e \<Rightarrow> (Inl e, mapping)
           | Inr (account_items, modified_accounts) \<Rightarrow>
               let kvs1 = (case map_of kvs ''accountItems'' of
                             None \<Rightarrow> kvs
                           | Some _ \<Rightarrow> set_key ''accountItems'' account_items kvs)
               in
               (case add_missing_sources location_headers
                       (case map_of kvs1 ''locationItems'' of None \<Rightarrow> JArr [] | Some v \<Rightarrow> v) of
                  Inl e \<Rightarrow> (Inl e, mapping)
                | Inr (location_items, modified_locations) \<Rightarrow>
                    let kvs2 = (case map_of kvs1 ''locationItems'' of
                                  None \<Rightarrow> kvs1
                                | Some _ \<Rightarrow> set_key ''locationItems'' location_items kvs1)
                    in
                    if modified_accounts \<or> modified_locations
                    then (Inr True, JObj kvs2)
                    else (Inr False, mapping)))
      | _ \<Rightarrow> (Inl (Error AttributeError []), mapping))"

section \<open>PortfolioManager.create_portfolio (portfolio.py)\<close>

text \<open>The double quote of the filter expressions.\<close>

definition dq :: string where
  "dq = [CHR 0x22]"

text \<open>\<^verbatim>\<open>len(x)\<close> and \<^verbatim>\<open>x[0]\<close> on what a search returned.\<close>

definition py_len :: "json \<Rightarrow> error + nat" where
  "py_len v = (case v of
       JArr xs \<Rightarrow> Inr (length xs)
     | JStr s \<Rightarrow> Inr (length s)
     | JObj kvs \<Rightarrow> Inr (length kvs)
     | _ \<Rightarrow> Inl (Error TypeError []))"

definition py_first :: "json \<Rightarrow> error + json" where
  "py_first v = (case v of
       JArr [] \<Rightarrow> Inl (Error IndexError [])
     | JArr (x # _) \<Rightarrow> Inr x
     | JStr [] \<Rightarrow> Inl (Error IndexError [])
     | JStr (c # _) \<Rightarrow> Inr (JStr [c])
     | JObj kvs \<Rightarrow> Inl (Error KeyError [Val (JNum 0)])
     | _ \<Rightarrow> Inl (Error TypeError []))"

text \<open>
  \<^verbatim>\<open>int(s)\<close> of a string: blanks around, a sign, decimal digits, single underscores
  between digits.  The blanks of \<^verbatim>\<open>int\<close> are tab, line feed, vertical tab, form feed,
  carriage return and space, and the two blanks above 127 (0x85 and 0xA0); the separators
  0x1C to 0x1F are not among them.
\<close>

definition int_space :: "char \<Rightarrow> bool" where
  "int_space c = (of_char c \<in> {9, 10, 11, 12, 13, 32, 133, 160 :: nat})"

definition digit_of :: "char \<Rightarrow> nat option" where
  "digit_of c = map_of (zip ''0123456789'' [0, 1, 2, 3, 4, 5, 6, 7, 8, 9]) c"

fun parse_digits :: "string \<Rightarrow> nat \<Rightarrow> nat option" where
  "parse_digits [] acc = Some acc"
| "parse_digits (c # cs) acc =
     (if c = CHR ''_''
      then (case cs of
              [] \<Rightarrow> None
            | d # _ \<Rightarrow> if digit_of d = None then None else parse_digits cs acc)
      else (case digit_of c of
              None \<Rightarrow> None
            | Some n \<Rightarrow> parse_digits cs (10 * acc + n)))"

definition parse_unsigned :: "string \<Rightarrow> nat option" where
  "parse_unsigned s = (case s of
       [] \<Rightarrow> None
     | d # _ \<Rightarrow> if digit_of d = None then None else parse_digits s 0)"

definition int_strip :: "string \<Rightarrow> string" where
  "int_strip s = rev (dropWhile int_space (rev (dropWhile int_space s)))"

definition py_int :: "string \<Rightarrow> error + int" where
  "py_int s =
     (case (case int_strip s of
              [] \<Rightarrow> None
            | c # cs \<Rightarrow>
                if c = CHR ''-'' then map_option (\<lambda>n. - int n) (parse_unsigned cs)
                else if c = CHR ''+'' then map_option int (parse_unsigned cs)
                else map_option int (parse_unsigned (c # cs))) of
        None \<Rightarrow> Inl (Error ValueError [])
      | Some i \<Rightarrow> Inr i)"

text \<open>\<^verbatim>\<open>search_portfolios\<close> with the default limit and offset; the exposure identifier is
  the value taken from the EDM record.\<close>

definition search_portfolios ::
  "client \<Rightarrow> constants \<Rightarrow> json \<Rightarrow> string \<Rightarrow> world \<Rightarrow> (error + json) \<times> world" where
  "search_portfolios cl K exposure_id flt w =
     (case validate_positive_int exposure_id ''exposure_id'' of
        Inl e \<Rightarrow> (Inl e, w)
      | Inr _ \<Rightarrow>
          (case request cl ''GET'' (SEARCH_PORTFOLIOS K exposure_id) None None
                  ([(''limit'', JNum 100), (''offset'', JNum 0)] @
                   (if flt \<noteq> [] then [(''filter'', JStr flt)] else []))
                  None w of
             (Inl e, w1) \<Rightarrow>
               (Inl (Error IRPAPIError
                  [Lit (''Failed to search portfolios for exposure ID '' @ sq), Val exposure_id,
                   Lit (sq @ '': ''), Exc e]), w1)
           | (Inr r, w1) \<Rightarrow>
               (case json_of r of
                  Inl e \<Rightarrow>
                    (Inl (Error IRPAPIError
                       [Lit (''Failed to search portfolios for exposure ID '' @ sq), Val exposure_id,
                        Lit (sq @ '': ''), Exc e]), w1)
                | Inr j \<Rightarrow> (Inr j, w1))))"

text \<open>The request body of the creation.\<close>

definition portfolio_data :: "string \<Rightarrow> string \<Rightarrow> string \<Rightarrow> json" where
  "portfolio_data portfolio_name portfolio_number description =
     JObj [(''portfolioName'', JStr portfolio_name),
           (''portfolioNumber'', JStr (take 20 portfolio_number)),
           (''description'', JStr description)]"

text \<open>The \<^verbatim>\<open>try\<close> block that ends \<^verbatim>\<open>create_portfolio\<close>; its handler wraps every
  exception.\<close>

definition create_portfolio_submit ::
  "client \<Rightarrow> constants \<Rightarrow> string \<Rightarrow> json \<Rightarrow> json \<Rightarrow> world \<Rightarrow> (error + int \<times> json) \<times> world" where
  "create_portfolio_submit cl K portfolio_name exposure_id data w =
     (case request cl ''POST'' (CREATE_PORTFOLIO K exposure_id) None None [] (Some data) w of
        (Inl e, w1) \<Rightarrow>
          (Inl (Error IRPAPIError
             [Lit (''Failed to create portfolio '' @ sq), Lit portfolio_name,
              Lit (sq @ '' in exposure id '' @ sq), Val exposure_id, Lit (sq @ '': ''), Exc e]), w1)
      | (Inr response, w1) \<Rightarrow>
          (case extract_id_from_location_header response ''portfolio creation'' of
             Inl e \<Rightarrow>
               (Inl (Error IRPAPIError
                  [Lit (''Failed to create portfolio '' @ sq), Lit portfolio_name,
                   Lit (sq @ '' in exposure id '' @ sq), Val exposure_id, Lit (sq @ '': ''), Exc e]), w1)
           | Inr portfolio_id \<Rightarrow>
               (case py_int portfolio_id of
                  Inl e \<Rightarrow>
                    (Inl (Error IRPAPIError
                       [Lit (''Failed to create portfolio '' @ sq), Lit portfolio_name,
                        Lit (sq @ '' in exposure id '' @ sq), Val exposure_id, Lit (sq @ '': ''),
                        Exc e]), w1)
                | Inr i \<Rightarrow> (Inr (i, data), w1))))"

text \<open>
  \<^verbatim>\<open>create_portfolio\<close>.  \<^verbatim>\<open>edm.py\<close> is not among the sources: the search for the EDM is
  the parameter \<open>search_edms\<close>, from the filter to what the search returns.
\<close>

definition create_portfolio ::
  "client \<Rightarrow> constants \<Rightarrow> (string \<Rightarrow> world \<Rightarrow> (error + json) \<times> world) \<Rightarrow>
   string \<Rightarrow> string \<Rightarrow> string \<Rightarrow> string \<Rightarrow> world \<Rightarrow> (error + int \<times> json) \<times> world" where
  "create_portfolio cl K search_edms edm_name portfolio_name portfolio_number description w =
     (case validate_non_empty_string (JStr edm_name) ''edm_name'' of
        Inl e \<Rightarrow> (Inl e, w)
      | Inr _ \<Rightarrow>
     (case validate_non_empty_string (JStr portfolio_name) ''portfolio_name'' of
        Inl e \<Rightarrow> (Inl e, w)
      | Inr _ \<Rightarrow>
     (case validate_non_empty_string (JStr portfolio_number) ''portfolio_number'' of
        Inl e \<Rightarrow> (Inl e, w)
      | Inr _ \<Rightarrow>
     (case search_edms (''exposureName='' @ dq @ edm_name @ dq) w of
        (Inl e, w1) \<Rightarrow> (Inl e, w1)
      | (Inr edms, w1) \<Rightarrow>
     (case py_len edms of
        Inl e \<Rightarrow> (Inl e, w1)
      | Inr n_edms \<Rightarrow>
          if n_edms \<noteq> 1
          then (Inl (Error IRPAPIError
                  [Lit ''Expected 1 EDM with name '', Lit edm_name, Lit '', found '',
                   Val (JNum (int n_edms))]), w1)
          else
     (case (case py_first edms of Inl e \<Rightarrow> Inl e | Inr edm \<Rightarrow> subscript edm ''exposureId'') of
        Inl e \<Rightarrow>
          (Inl (Error IRPAPIError
             [Lit (''Failed to extract exposure ID for EDM '' @ sq), Lit edm_name,
              Lit (sq @ '': ''), Exc e]), w1)
      | Inr exposure_id \<Rightarrow>
     (case search_portfolios cl K exposure_id (''portfolioName='' @ dq @ portfolio_name @ dq) w1 of
        (Inl e, w2) \<Rightarrow> (Inl e, w2)
      | (Inr portfolios, w2) \<Rightarrow>
     (case py_len portfolios of
        Inl e \<Rightarrow> (Inl e, w2)
      | Inr n_portfolios \<Rightarrow>
          if n_portfolios > 0
          then (Inl (Error IRPAPIError
                  [Val (JNum (int n_portfolios)), Lit '' portfolios found with name '',
                   Lit portfolio_name, Lit '', please use a unique name'']), w2)
          else create_portfolio_submit cl K portfolio_name exposure_id
                 (portfolio_data portfolio_name portfolio_number description) w2))))))))"

section \<open>Describing an exchange\<close>

text \<open>The request a poll by URL sends, and the one a poll by identifier sends.\<close>

definition status_request :: "string \<Rightarrow> http_request" where
  "status_request workflow_url =
     \<lparr>req_method = ''GET'', req_url = workflow_url, req_params = [], req_json = None\<rparr>"

definition passes :: "http_response \<Rightarrow> bool" where
  "passes r = (\<not> (400 \<le> status_code r \<and> status_code r < 600))"

text \<open>In world \<open>w\<close> the session answers request \<open>rq\<close> after \<open>d\<close> seconds with the
  response \<open>r\<close>, which passes \<^verbatim>\<open>raise_for_status\<close> and whose body is a dict that
  reads \<open>s\<close> under \<^verbatim>\<open>.get('status', '')\<close>.\<close>

definition answers_status ::
  "client \<Rightarrow> world \<Rightarrow> http_request \<Rightarrow> real \<Rightarrow> http_response \<Rightarrow> json \<Rightarrow> bool" where
  "answers_status cl w rq d r s =
     (exchange cl (length (sent w)) rq = (d, Some r) \<and> passes r \<and>
      (case resp_json r of None \<Rightarrow> False | Some j \<Rightarrow> get_default j ''status'' (JStr '''') = Inr s))"

subsection \<open>Example values\<close>

text \<open>Constants of the shape \<^verbatim>\<open>constants.py\<close> has, and scripted sessions.\<close>

definition example_constants :: constants where
  "example_constants =
     \<lparr>WORKFLOW_COMPLETED_STATUSES = [''FINISHED'', ''FAILED'', ''CANCELLED''],
      WORKFLOW_IN_PROGRESS_STATUSES = [''QUEUED'', ''PENDING'', ''RUNNING''],
      GET_WORKFLOWS = ''/workflows'',
      GET_WORKFLOW_BY_ID = (\<lambda>i. ''/workflows/'' @ str_int i),
      GET_GEOHAZ_JOB = (\<lambda>i. ''/jobs/'' @ str_int i),
      SEARCH_PORTFOLIOS = (\<lambda>e. ''/portfolios''),
      CREATE_PORTFOLIO = (\<lambda>e. ''/portfolios'')\<rparr>"

definition status_reply :: "string \<Rightarrow> int \<Rightarrow> http_response" where
  "status_reply s p =
     \<lparr>status_code = 200, resp_headers = [], resp_text = [],
      resp_json = Some (JObj [(''status'', JStr s), (''progress'', JNum p)])\<rparr>"





text \<open>A session that answers every request at once with the same status.\<close>

definition constant_client :: "string \<Rightarrow> client" where
  "constant_client s =
     \<lparr>base_url = ''https://host'', exchange = (\<lambda>n rq. (0, Some (status_reply s 100)))\<rparr>"

text \<open>The request of a status call by identifier, for the path the template gives.\<close>

definition id_request :: "client \<Rightarrow> string \<Rightarrow> http_request" where
  "id_request cl path =
     \<lparr>req_method = ''GET'', req_url = base_url cl @ ''/'' @ lstrip_slash path,
      req_params = [], req_json = None\<rparr>"

text \<open>In world \<open>w\<close> the session answers request \<open>rq\<close> after \<open>d\<close> seconds with the
  response \<open>r\<close>, which passes \<^verbatim>\<open>raise_for_status\<close> and whose body parses to \<open>j\<close>.\<close>

definition answers_json ::
  "client \<Rightarrow> world \<Rightarrow> http_request \<Rightarrow> real \<Rightarrow> http_response \<Rightarrow> json \<Rightarrow> bool" where
  "answers_json cl w rq d r j =
     (exchange cl (length (sent w)) rq = (d, Some r) \<and> passes r \<and> resp_json r = Some j)"


text \<open>The status call for workflow 7 at the example host.\<close>

definition workflow_7_request :: http_request where
  "workflow_7_request =
     \<lparr>req_method = ''GET'', req_url = ''https://host/workflows/7'', req_params = [], req_json = None\<rparr>"

text \<open>A session whose every answer is the empty object.\<close>

definition empty_reply :: http_response where
  "empty_reply = \<lparr>status_code = 200, resp_headers = [], resp_text = ''{}'', resp_json = Some (JObj [])\<rparr>"

definition empty_body_client :: client where
  "empty_body_client = \<lparr>base_url = ''https://host'', exchange = (\<lambda>n rq. (0, Some empty_reply))\<rparr>"

text \<open>The request for one page of the listing.\<close>

definition page_request :: "client \<Rightarrow> constants \<Rightarrow> int list \<Rightarrow> int \<Rightarrow> http_request" where
  "page_request cl K workflow_ids offset =
     \<lparr>req_method = ''GET'', req_url = base_url cl @ ''/'' @ lstrip_slash (GET_WORKFLOWS K),
      req_params = page_params workflow_ids offset, req_json = None\<rparr>"

text \<open>In world \<open>w\<close> the session answers with a page that reports \<open>t\<close> matches and
  brings the workflows \<open>ws\<close>.\<close>

definition answers_page ::
  "client \<Rightarrow> world \<Rightarrow> http_request \<Rightarrow> real \<Rightarrow> http_response \<Rightarrow> int \<Rightarrow> json list \<Rightarrow> bool" where
  "answers_page cl w rq d r t ws =
     (exchange cl (length (sent w)) rq = (d, Some r) \<and> passes r \<and>
      (case resp_json r of
         Some (JObj kvs) \<Rightarrow>
           map_of kvs ''totalMatchCount'' = Some (JNum t) \<and> map_of kvs ''workflows'' = Some (JArr ws)
       | _ \<Rightarrow> False))"

text \<open>Every workflow of the list is a dict whose status is outside the in-progress
  collection.\<close>

definition none_in_progress :: "string list \<Rightarrow> json list \<Rightarrow> bool" where
  "none_in_progress in_progress ws =
     list_all (\<lambda>x. case get_default x ''status'' (JStr '''') of
                     Inl e \<Rightarrow> False
                   | Inr s \<Rightarrow> \<not> status_in s in_progress) ws"

text \<open>A page of the listing, and a session whose listing holds one workflow with a
  status that neither collection knows.\<close>

definition listing_reply :: "int \<Rightarrow> json list \<Rightarrow> http_response" where
  "listing_reply t ws =
     \<lparr>status_code = 200, resp_headers = [], resp_text = [],
      resp_json = Some (JObj [(''totalMatchCount'', JNum t), (''workflows'', JArr ws)])\<rparr>"



definition page_request_7 :: "int \<Rightarrow> http_request" where
  "page_request_7 offset =
     \<lparr>req_method = ''GET'', req_url = ''https://host/workflows'',
      req_params = [(''ids'', JStr ''7''), (''limit'', JNum 100), (''offset'', JNum offset)],
      req_json = None\<rparr>"

text \<open>Workflows of a listing, and a session whose every page reports 250 matches and
  brings 50 finished workflows.\<close>

definition finished_workflow :: json where
  "finished_workflow = JObj [(''id'', JNum 7), (''status'', JStr ''FINISHED'')]"

definition running_workflow :: json where
  "running_workflow = JObj [(''id'', JNum 7), (''status'', JStr ''RUNNING'')]"

definition half_page_client :: client where
  "half_page_client =
     \<lparr>base_url = ''https://host'',
      exchange = (\<lambda>n rq. (0, Some (listing_reply 250 (replicate 50 finished_workflow))))\<rparr>"

text \<open>A session for two ticks: pages of 100, 100 and 50 workflows, with a running
  workflow on each page of the first tick and none after it.\<close>

definition two_tick_page :: "nat \<Rightarrow> json list" where
  "two_tick_page n =
     (if n < 3 then running_workflow else finished_workflow) #
     replicate (if n mod 3 = 2 then 49 else 99) finished_workflow"

definition two_tick_client :: client where
  "two_tick_client =
     \<lparr>base_url = ''https://host'',
      exchange = (\<lambda>n rq. (0, Some (listing_reply 250 (two_tick_page n))))\<rparr>"

text \<open>A decoder that knows five encoded texts and raises on anything else, a payload
  with all five fields and one with three.\<close>

definition example_decoder :: "json \<Rightarrow> error + string" where
  "example_decoder v =
     (case map_of
        [(JStr ''QUtJQUVYQU1QTEU='', ''AKIAEXAMPLE''),
         (JStr ''c2VjcmV0'', ''secret''),
         (JStr ''dG9rZW4='', ''token''),
         (JStr ''YnVja2V0L3ByZWZpeA=='', ''bucket/prefix''),
         (JStr ''dXMtZWFzdC0x'', ''us-east-1'')] v of
        None \<Rightarrow> Inl (Error ValueError [])
      | Some s \<Rightarrow> Inr s)"

definition full_payload :: "(string \<times> json) list" where
  "full_payload =
     [(''accessKeyId'', JStr ''QUtJQUVYQU1QTEU=''),
      (''secretAccessKey'', JStr ''c2VjcmV0''),
      (''sessionToken'', JStr ''dG9rZW4=''),
      (''s3Path'', JStr ''YnVja2V0L3ByZWZpeA==''),
      (''s3Region'', JStr ''dXMtZWFzdC0x'')]"

definition partial_payload :: "(string \<times> json) list" where
  "partial_payload =
     [(''accessKeyId'', JStr ''QUtJQUVYQU1QTEU=''),
      (''sessionToken'', JStr ''dG9rZW4=''),
      (''s3Path'', JStr ''YnVja2V0L3ByZWZpeA=='')]"

text \<open>The dict \<open>d\<close> carries the target name under the name field; and: its name, if it
  has one, is a string, so that it can be listed in a message.\<close>

definition named :: "string \<Rightarrow> string \<Rightarrow> (string \<times> json) list \<Rightarrow> bool" where
  "named name_field target_name d = (map_of d name_field = Some (JStr target_name))"

definition printable_name :: "string \<Rightarrow> (string \<times> json) list \<Rightarrow> bool" where
  "printable_name name_field d =
     (case map_of d name_field of None \<Rightarrow> True | Some (JStr s) \<Rightarrow> True | Some _ \<Rightarrow> False)"

text \<open>Three records of a search, two of them with the same name.\<close>

definition portfolio_A1 :: "(string \<times> json) list" where
  "portfolio_A1 = [(''name'', JStr ''A''), (''portfolioId'', JNum 1)]"

definition portfolio_A2 :: "(string \<times> json) list" where
  "portfolio_A2 = [(''name'', JStr ''A''), (''portfolioId'', JNum 2)]"

definition portfolio_B :: "(string \<times> json) list" where
  "portfolio_B = [(''name'', JStr ''B''), (''portfolioId'', JNum 3)]"

text \<open>The source of a mapping entry, the identity entry for a header, and the headers
  that no source matches when case is ignored.\<close>

definition source_of :: "json \<Rightarrow> string option" where
  "source_of item = (case subscript item ''source'' of Inr (JStr s) \<Rightarrow> Some s | _ \<Rightarrow> None)"

definition identity_entry :: "string \<Rightarrow> json" where
  "identity_entry h = JObj [(''source'', JStr (upper h)), (''destination'', JStr (upper h))]"

definition missing_headers :: "string list \<Rightarrow> string list \<Rightarrow> string list" where
  "missing_headers sources headers = filter (\<lambda>h. upper h \<notin> set (map upper sources)) headers"

subsection \<open>Creating a portfolio\<close>

text \<open>The creation request for a body, and a session with one EDM of identifier 7, no
  portfolio of the name, and a creation answered 201 with
  \<^verbatim>\<open>Location: https://host/portfolios/42\<close>.\<close>

definition creation_request :: "client \<Rightarrow> constants \<Rightarrow> json \<Rightarrow> json \<Rightarrow> http_request" where
  "creation_request cl K exposure_id data =
     \<lparr>req_method = ''POST'', req_url = base_url cl @ ''/'' @ lstrip_slash (CREATE_PORTFOLIO K exposure_id),
      req_params = [], req_json = Some data\<rparr>"

definition no_portfolios_reply :: http_response where
  "no_portfolios_reply =
     \<lparr>status_code = 200, resp_headers = [], resp_text = [], resp_json = Some (JArr [])\<rparr>"

definition created_reply :: http_response where
  "created_reply =
     \<lparr>status_code = 201, resp_headers = [(''Location'', ''https://host/portfolios/42'')],
      resp_text = [], resp_json = None\<rparr>"

definition portfolio_client :: client where
  "portfolio_client =
     \<lparr>base_url = ''https://host'',
      exchange = (\<lambda>n rq. (0, Some (if req_method rq = ''GET'' then no_portfolios_reply
                                    else created_reply)))\<rparr>"

definition one_edm :: "string \<Rightarrow> world \<Rightarrow> (error + json) \<times> world" where
  "one_edm flt w = (Inr (JArr [JObj [(''exposureName'', JStr ''EDM1''), (''exposureId'', JNum 7)]]), w)"

definition search_request :: http_request where
  "search_request =
     \<lparr>req_method = ''GET'', req_url = ''https://host/portfolios'',
      req_params = [(''limit'', JNum 100), (''offset'', JNum 0),
                    (''filter'', JStr (''portfolioName='' @ dq @ ''Book'' @ dq))],
      req_json = None\<rparr>"

section \<open>Facts about the transport and the validators\<close>

lemma validate_method_GET: "validate_non_empty_string (JStr ''GET'') ''method'' = Inr ()"
  by (simp add: validate_non_empty_string_def is_space_def)

lemma validate_positive_int_pos: "0 < n \<Longrightarrow> validate_positive_int (JNum n) name = Inr ()"
  by (simp add: validate_positive_int_def)

lemma validate_non_empty_string_ok:
  "\<not> list_all is_space s \<Longrightarrow> validate_non_empty_string (JStr s) name = Inr ()"
  by (simp add: validate_non_empty_string_def)

lemma sent_advance: "sent (advance d rq w) = sent w @ [rq]"
  by (simp add: advance_def)


lemma clock_advance: "clock (advance d rq w) = clock w + d"
  by (simp add: advance_def)

lemma clock_sleep: "clock (sleep n w) = clock w + real_of_int n"
  by (simp add: sleep_def)

lemma request_GET_url:
  assumes "exchange cl (length (sent w)) (status_request url) = (d, Some r)" "passes r" "url \<noteq> []"
  shows "request cl ''GET'' '''' (Some url) None [] None w = (Inr r, advance d (status_request url) w)"
  using assms
  by (simp add: request_def validate_method_GET truthy_def status_request_def passes_def Let_def)

text \<open>One tick of the poller by URL, when the fetch is answered with a status.\<close>

lemma poll_workflow_loop_tick:
  assumes "answers_status cl w (status_request url) d r s" "url \<noteq> []"
  shows "poll_workflow_loop cl K url interval timeout start w =
     (if status_in s (WORKFLOW_COMPLETED_STATUSES K)
      then Some (Inr r, advance d (status_request url) w)
      else if clock (advance d (status_request url) w) - start > real_of_int timeout
      then Some (Inl (Error IRPWorkflowError
             [Lit ''Workflow did not complete within '', Val (JNum timeout),
              Lit '' seconds. Last status: '', Val s]), advance d (status_request url) w)
      else poll_workflow_loop cl K url interval timeout start
             (sleep interval (advance d (status_request url) w)))"
proof -
  from assms obtain j where
    ex: "exchange cl (length (sent w)) (status_request url) = (d, Some r)" and p: "passes r"
    and j: "resp_json r = Some j" and s: "get_default j ''status'' (JStr '''') = Inr s"
    by (auto simp: answers_status_def split: option.splits)
  show ?thesis
    by (subst poll_workflow_loop.simps)
       (simp add: request_GET_url [OF ex p assms(2)] json_of_def j s)
qed


lemma request_GET_path:
  assumes "exchange cl (length (sent w)) (id_request cl path) = (d, Some r)" "passes r"
  shows "request cl ''GET'' path None None [] None w = (Inr r, advance d (id_request cl path) w)"
  using assms
  by (simp add: request_def validate_method_GET truthy_def id_request_def passes_def Let_def)

lemma get_workflow_answer:
  assumes "0 < workflow_id"
    "answers_json cl w (id_request cl (GET_WORKFLOW_BY_ID K workflow_id)) d r j"
  shows "get_workflow cl K workflow_id w =
           (Inr j, advance d (id_request cl (GET_WORKFLOW_BY_ID K workflow_id)) w)"
  using assms
  by (simp add: get_workflow_def validate_positive_int_pos answers_json_def request_GET_path
        json_of_def)

lemma get_geohaz_job_answer:
  assumes "0 < job_id"
    "answers_json cl w (id_request cl (GET_GEOHAZ_JOB K job_id)) d r j"
  shows "get_geohaz_job cl K job_id w =
           (Inr j, advance d (id_request cl (GET_GEOHAZ_JOB K job_id)) w)"
  using assms
  by (simp add: get_geohaz_job_def validate_positive_int_pos answers_json_def request_GET_path
        json_of_def)

text \<open>One tick of the pollers by identifier, when the fetch is answered with a body.\<close>

lemma poll_workflow_to_completion_loop_tick:
  assumes "0 < workflow_id"
    "answers_json cl w (id_request cl (GET_WORKFLOW_BY_ID K workflow_id)) d r j"
  shows "poll_workflow_to_completion_loop cl K workflow_id interval timeout start w =
     (case status_and_progress j of
        Inl e \<Rightarrow>
          Some (Inl (Error IRPAPIError
             [Lit ''Missing 'status' or 'progress' in job response for workflow ID '',
              Val (JNum workflow_id), Lit '': '', Exc e]),
             advance d (id_request cl (GET_WORKFLOW_BY_ID K workflow_id)) w)
      | Inr (s, p) \<Rightarrow>
          if status_in s (WORKFLOW_COMPLETED_STATUSES K)
          then Some (Inr j, advance d (id_request cl (GET_WORKFLOW_BY_ID K workflow_id)) w)
          else if clock (advance d (id_request cl (GET_WORKFLOW_BY_ID K workflow_id)) w) - start
                    > real_of_int timeout
          then Some (Inl (Error IRPJobError
                 [Lit ''Risk data workflow ID '', Val (JNum workflow_id),
                  Lit '' did not complete within '', Val (JNum timeout),
                  Lit '' seconds. Last status: '', Val s]),
                 advance d (id_request cl (GET_WORKFLOW_BY_ID K workflow_id)) w)
          else poll_workflow_to_completion_loop cl K workflow_id interval timeout start
                 (sleep interval (advance d (id_request cl (GET_WORKFLOW_BY_ID K workflow_id)) w)))"
  by (subst poll_workflow_to_completion_loop.simps)
     (simp add: get_workflow_answer [OF assms] split: sum.splits prod.splits)

lemma poll_geohaz_job_to_completion_loop_tick:
  assumes "0 < job_id"
    "answers_json cl w (id_request cl (GET_GEOHAZ_JOB K job_id)) d r j"
  shows "poll_geohaz_job_to_completion_loop cl K job_id interval timeout start w =
     (case status_and_progress j of
        Inl e \<Rightarrow>
          Some (Inl (Error IRPAPIError
             [Lit ''Missing 'status' or 'progress' in job response for job ID '',
              Val (JNum job_id), Lit '': '', Exc e]),
             advance d (id_request cl (GET_GEOHAZ_JOB K job_id)) w)
      | Inr (s, p) \<Rightarrow>
          if status_in s (WORKFLOW_COMPLETED_STATUSES K)
          then Some (Inr j, advance d (id_request cl (GET_GEOHAZ_JOB K job_id)) w)
          else if clock (advance d (id_request cl (GET_GEOHAZ_JOB K job_id)) w) - start
                    > real_of_int timeout
          then Some (Inl (Error IRPJobError
                 [Lit ''GeoHaz job ID '', Val (JNum job_id),
                  Lit '' did not complete within '', Val (JNum timeout),
                  Lit '' seconds. Last status: '', Val s]),
                 advance d (id_request cl (GET_GEOHAZ_JOB K job_id)) w)
          else poll_geohaz_job_to_completion_loop cl K job_id interval timeout start
                 (sleep interval (advance d (id_request cl (GET_GEOHAZ_JOB K job_id)) w)))"
  by (subst poll_geohaz_job_to_completion_loop.simps)
     (simp add: get_geohaz_job_answer [OF assms] split: sum.splits prod.splits)

subsection \<open>The example sessions\<close>

lemma id_request_7:
  "id_request (constant_client s) (GET_WORKFLOW_BY_ID example_constants 7) = workflow_7_request"
  by (simp add: id_request_def constant_client_def example_constants_def str_int_def
        lstrip_slash_def workflow_7_request_def)

lemma constant_client_answers_json:
  "answers_json (constant_client s) w rq 0 (status_reply s 100)
     (JObj [(''status'', JStr s), (''progress'', JNum 100)])"
  by (simp add: answers_json_def constant_client_def status_reply_def passes_def)

lemma constant_client_answers_status:
  "answers_status (constant_client s) w rq 0 (status_reply s 100) (JStr s)"
  by (simp add: answers_status_def constant_client_def status_reply_def passes_def get_default_def)

lemma status_and_progress_reply:
  "status_and_progress (JObj [(''status'', JStr s), (''progress'', JNum p)]) = Inr (JStr s, JNum p)"
  by (simp add: status_and_progress_def subscript_def)

lemma running_not_completed:
  "\<not> status_in (JStr ''RUNNING'') (WORKFLOW_COMPLETED_STATUSES example_constants)"
  by (simp add: status_in_def example_constants_def)

lemma status_and_progress_missing:
  "map_of kvs ''status'' = None \<or> map_of kvs ''progress'' = None \<Longrightarrow>
   status_and_progress (JObj kvs) =
     Inl (Error KeyError [Val (JStr (if map_of kvs ''status'' = None then ''status'' else ''progress''))])"
  by (auto simp: status_and_progress_def subscript_def split: option.splits)

lemma id_request_7_host:
  "base_url cl = ''https://host'' \<Longrightarrow>
   id_request cl (GET_WORKFLOW_BY_ID example_constants 7) = workflow_7_request"
  by (simp add: id_request_def example_constants_def str_int_def lstrip_slash_def
        workflow_7_request_def)

lemma empty_body_client_answers: "answers_json empty_body_client w rq 0 empty_reply (JObj [])"
  by (simp add: answers_json_def empty_body_client_def empty_reply_def passes_def)

lemma empty_not_completed:
  "\<not> status_in (JStr '''') (WORKFLOW_COMPLETED_STATUSES example_constants)"
  by (simp add: status_in_def example_constants_def)

subsection \<open>The listing\<close>

lemma request_GET_params:
  assumes "exchange cl (length (sent w)) (page_request cl K ids offset) = (d, Some r)" "passes r"
  shows "request cl ''GET'' (GET_WORKFLOWS K) None None (page_params ids offset) None w =
           (Inr r, advance d (page_request cl K ids offset) w)"
  using assms
  by (simp add: request_def validate_method_GET truthy_def page_request_def passes_def Let_def)

lemma fetch_workflow_pages_page:
  assumes "answers_page cl w (page_request cl K ids offset) d r t ws"
  shows "fetch_workflow_pages cl K ids offset acc w =
     (if t \<le> int (length (acc @ ws))
      then Some (Inr (r, acc @ ws), advance d (page_request cl K ids offset) w)
      else fetch_workflow_pages cl K ids (offset + 100) (acc @ ws)
             (advance d (page_request cl K ids offset) w))"
proof -
  from assms obtain kvs where
    ex: "exchange cl (length (sent w)) (page_request cl K ids offset) = (d, Some r)"
    and p: "passes r" and j: "resp_json r = Some (JObj kvs)"
    and t: "map_of kvs ''totalMatchCount'' = Some (JNum t)"
    and ws: "map_of kvs ''workflows'' = Some (JArr ws)"
    by (auto simp: answers_page_def split: option.splits json.splits)
  show ?thesis
    by (subst fetch_workflow_pages.simps)
       (simp add: request_GET_params [OF ex p] json_of_def j subscript_def t get_default_def ws
          py_iter_def len_ge_def)
qed

lemma all_completed_none_in_progress:
  "none_in_progress ip ws \<Longrightarrow> all_completed ip ws = Inr True"
  by (induction ws) (auto simp: none_in_progress_def split: sum.splits)

lemma page_request_7_host:
  "base_url cl = ''https://host'' \<Longrightarrow> page_request cl example_constants [7] offset = page_request_7 offset"
  by (simp add: page_request_def page_params_def example_constants_def str_int_def lstrip_slash_def
        page_request_7_def)

lemma answers_page_listing_reply:
  "exchange cl (length (sent w)) rq = (d, Some (listing_reply t ws)) \<Longrightarrow>
   answers_page cl w rq d (listing_reply t ws) t ws"
  by (simp add: answers_page_def listing_reply_def passes_def)





lemma half_page_client_page:
  "answers_page half_page_client w rq 0 (listing_reply 250 (replicate 50 finished_workflow)) 250
     (replicate 50 finished_workflow)"
  by (rule answers_page_listing_reply) (simp add: half_page_client_def)

lemma half_page_step:
  assumes "k < 4"
  shows "fetch_workflow_pages half_page_client example_constants [7] offset
           (replicate (50 * k) finished_workflow) w =
         fetch_workflow_pages half_page_client example_constants [7] (offset + 100)
           (replicate (50 * Suc k) finished_workflow)
           (advance 0 (page_request_7 offset) w)"
proof -
  have b: "base_url half_page_client = ''https://host''"
    by (simp add: half_page_client_def)
  have r: "replicate (50 * k) finished_workflow @ replicate 50 finished_workflow =
           replicate (50 * Suc k) finished_workflow"
    by (simp add: replicate_add [symmetric])
  show ?thesis
    using assms
      fetch_workflow_pages_page
        [of half_page_client w example_constants "[7]" offset 0
            "listing_reply 250 (replicate 50 finished_workflow)" 250
            "replicate 50 finished_workflow" "replicate (50 * k) finished_workflow"]
    by (simp add: page_request_7_host [OF b] half_page_client_page r del: replicate_Suc)
qed

lemma half_page_last:
  "fetch_workflow_pages half_page_client example_constants [7] offset
     (replicate 200 finished_workflow) w =
   Some (Inr (listing_reply 250 (replicate 50 finished_workflow), replicate 250 finished_workflow),
         advance 0 (page_request_7 offset) w)"
proof -
  have b: "base_url half_page_client = ''https://host''"
    by (simp add: half_page_client_def)
  have r: "replicate 200 finished_workflow @ replicate 50 finished_workflow =
           replicate 250 finished_workflow"
    by (simp add: replicate_add [symmetric])
  show ?thesis
    using fetch_workflow_pages_page
        [of half_page_client w example_constants "[7]" offset 0
            "listing_reply 250 (replicate 50 finished_workflow)" 250
            "replicate 50 finished_workflow" "replicate 200 finished_workflow"]
    by (simp add: page_request_7_host [OF b] half_page_client_page r)
qed

lemma finished_none_in_progress:
  "none_in_progress (WORKFLOW_IN_PROGRESS_STATUSES example_constants) (replicate n finished_workflow)"
  by (induction n)
     (simp_all add: none_in_progress_def finished_workflow_def get_default_def status_in_def
        example_constants_def)

lemma two_tick_client_page:
  "length (sent w) = n \<Longrightarrow>
   answers_page two_tick_client w rq 0 (listing_reply 250 (two_tick_page n)) 250 (two_tick_page n)"
  by (rule answers_page_listing_reply) (simp add: two_tick_client_def)

lemma length_two_tick_page:
  "length (two_tick_page 0) = 100" "length (two_tick_page 1) = 100" "length (two_tick_page 2) = 50"
  "length (two_tick_page 3) = 100" "length (two_tick_page 4) = 100" "length (two_tick_page 5) = 50"
  "length (two_tick_page (Suc 0)) = 100"
  by (simp_all add: two_tick_page_def)

lemma first_tick_incomplete:
  "all_completed (WORKFLOW_IN_PROGRESS_STATUSES example_constants)
     (two_tick_page 0 @ two_tick_page 1 @ two_tick_page 2) = Inr False"
  "all_completed (WORKFLOW_IN_PROGRESS_STATUSES example_constants)
     (two_tick_page 0 @ two_tick_page (Suc 0) @ two_tick_page 2) = Inr False"
  by (simp_all add: two_tick_page_def running_workflow_def get_default_def status_in_def
        example_constants_def)

subsection \<open>Credentials\<close>

lemma decode_base64_field_cases:
  "decode_base64_field dec v f =
     (case dec v of
        Inl e \<Rightarrow> Inl (Error IRPAPIError
                  [Lit (''Failed to decode base64 field '' @ sq), Lit f, Lit (sq @ '': ''), Exc e])
      | Inr s \<Rightarrow> Inr s)"
  by (simp add: decode_base64_field_def)

lemma missing_none_iff:
  "filter (\<lambda>f. map_of rj f = None) required_fields = [] \<longleftrightarrow>
     (\<exists>va vb vc vd ve.
        map_of rj ''accessKeyId'' = Some va \<and> map_of rj ''secretAccessKey'' = Some vb \<and>
        map_of rj ''sessionToken'' = Some vc \<and> map_of rj ''s3Path'' = Some vd \<and>
        map_of rj ''s3Region'' = Some ve)"
  by (auto simp add: required_fields_def filter_empty_conv)

lemma decode_mri_credentials_present:
  assumes "map_of rj ''accessKeyId'' = Some va" "map_of rj ''secretAccessKey'' = Some vb"
    "map_of rj ''sessionToken'' = Some vc" "map_of rj ''s3Path'' = Some vd"
    "map_of rj ''s3Region'' = Some ve"
  shows "decode_mri_credentials dec rj =
     (case decode_base64_field dec va ''accessKeyId'' of Inl e \<Rightarrow> Inl e | Inr a \<Rightarrow>
     (case decode_base64_field dec vb ''secretAccessKey'' of Inl e \<Rightarrow> Inl e | Inr b \<Rightarrow>
     (case decode_base64_field dec vc ''sessionToken'' of Inl e \<Rightarrow> Inl e | Inr c \<Rightarrow>
     (case decode_base64_field dec vd ''s3Path'' of Inl e \<Rightarrow> Inl e | Inr d \<Rightarrow>
     (case decode_base64_field dec ve ''s3Region'' of Inl e \<Rightarrow> Inl e | Inr e \<Rightarrow>
        Inr [(''aws_access_key_id'', a), (''aws_secret_access_key'', b),
             (''aws_session_token'', c), (''s3_path'', d), (''s3_region'', e)])))))"
proof -
  have "filter (\<lambda>f. map_of rj f = None) required_fields = []"
    using assms by (simp add: required_fields_def)
  then show ?thesis
    using assms by (simp add: decode_mri_credentials_def cong: sum.case_cong)
qed

lemma partial_payload_missing:
  "filter (\<lambda>f. map_of partial_payload f = None) required_fields = [''secretAccessKey'', ''s3Region'']"
  by (simp add: partial_payload_def required_fields_def)

lemma full_payload_fields:
  "map_of full_payload ''accessKeyId'' = Some (JStr ''QUtJQUVYQU1QTEU='')"
  "map_of full_payload ''secretAccessKey'' = Some (JStr ''c2VjcmV0'')"
  "map_of full_payload ''sessionToken'' = Some (JStr ''dG9rZW4='')"
  "map_of full_payload ''s3Path'' = Some (JStr ''YnVja2V0L3ByZWZpeA=='')"
  "map_of full_payload ''s3Region'' = Some (JStr ''dXMtZWFzdC0x'')"
  by (simp_all add: full_payload_def)

lemma example_decoder_values:
  "example_decoder (JStr ''QUtJQUVYQU1QTEU='') = Inr ''AKIAEXAMPLE''"
  "example_decoder (JStr ''c2VjcmV0'') = Inr ''secret''"
  "example_decoder (JStr ''dG9rZW4='') = Inr ''token''"
  "example_decoder (JStr ''YnVja2V0L3ByZWZpeA=='') = Inr ''bucket/prefix''"
  "example_decoder (JStr ''dXMtZWFzdC0x'') = Inr ''us-east-1''"
  by (simp_all add: example_decoder_def)

subsection \<open>Lookup by name\<close>

lemma first_match_none:
  "list_all (\<lambda>d. \<not> named nf t d) ds \<Longrightarrow> first_match nf t (map JObj ds) = Inr None"
  by (induction ds) (auto simp: named_def get_default_def split: option.splits)

lemma first_match_first:
  "list_all (\<lambda>d. \<not> named nf t d) pre \<Longrightarrow> named nf t d \<Longrightarrow>
   first_match nf t (map JObj (pre @ d # post)) = Inr (Some (JObj d))"
  by (induction pre) (auto simp: named_def get_default_def split: option.splits)

lemma names_of_printable:
  "list_all (printable_name nf) ds \<Longrightarrow>
   \<exists>ns. names_of nf (map JObj ds) = Inr (map JStr ns) \<and> length ns = length ds"
proof (induction ds)
  case Nil
  then show ?case by simp
next
  case (Cons d ds)
  then obtain ns where ns: "names_of nf (map JObj ds) = Inr (map JStr ns)" "length ns = length ds"
    by auto
  from Cons.prems obtain s where s: "get_default (JObj d) nf (JStr ''<unnamed>'') = Inr (JStr s)"
    by (auto simp: printable_name_def get_default_def split: option.splits json.splits)
  have "names_of nf (map JObj (d # ds)) = Inr (map JStr (s # ns))"
    by (simp add: s ns)
  then show ?case
    using ns(2) by (metis length_Cons)
qed

lemma strings_of_strings: "strings_of (map JStr ns) = Inr ns"
  by (induction ns) simp_all

subsection \<open>The geohaz batch poller\<close>





subsection \<open>The mapping\<close>

lemma upper_char_idem: "upper (upper_char c) = upper_char c"
  by (simp add: upper_def upper_char_def small_letters_def capital_letters_def)

lemma upper_idem: "upper (upper s) = upper s"
  by (induction s) (simp_all add: upper_def upper_char_idem [unfolded upper_def])

lemma source_upper_source_of: "source_of item = Some s \<Longrightarrow> source_upper item = Inr (upper s)"
  by (auto simp: source_of_def source_upper_def split: sum.splits json.splits)

lemma existing_sources_upper_sources:
  "map source_of a = map Some sa \<Longrightarrow> existing_sources_upper a = Inr (map upper sa)"
proof (induction a arbitrary: sa)
  case Nil
  then show ?case by simp
next
  case (Cons item a)
  then obtain s sa' where sa: "sa = s # sa'" "source_of item = Some s" "map source_of a = map Some sa'"
    by (cases sa) auto
  then show ?case
    using Cons.IH [of sa'] by (simp add: source_upper_source_of)
qed

lemma add_missing_loop_eq:
  "add_missing_loop ex hs items m =
     (items @ map identity_entry (filter (\<lambda>h. upper h \<notin> set ex) hs),
      m \<or> filter (\<lambda>h. upper h \<notin> set ex) hs \<noteq> [])"
  by (induction hs arbitrary: items m) (simp_all add: identity_entry_def)

lemma add_missing_sources_list:
  assumes "map source_of a = map Some sa"
  shows "add_missing_sources hs (JArr a) =
           Inr (JArr (a @ map identity_entry (missing_headers sa hs)), missing_headers sa hs \<noteq> [])"
  by (simp add: add_missing_sources_def py_iter_def existing_sources_upper_sources [OF assms]
        add_missing_loop_eq missing_headers_def)

lemma source_of_identity_entry: "source_of (identity_entry h) = Some (upper h)"
  by (simp add: source_of_def identity_entry_def subscript_def)

lemma sources_after:
  assumes "map source_of a = map Some sa"
  shows "map source_of (a @ map identity_entry hs) = map Some (sa @ map upper hs)"
  using assms by (simp add: source_of_identity_entry comp_def)

lemma missing_headers_after:
  "missing_headers (sa @ map upper (missing_headers sa hs)) hs = []"
  by (auto simp: missing_headers_def filter_empty_conv upper_idem image_iff)

lemma map_of_set_key:
  "map_of (set_key k v kvs) k' = (if k' = k then map_option (\<lambda>_. v) (map_of kvs k) else map_of kvs k')"
  by (induction kvs) (auto simp: set_key_def)

text \<open>With both lists in the file, each list is written back with the entries of its
  missing labels.\<close>

lemma sync_mapping_both_lists:
  assumes a: "map_of kvs ''accountItems'' = Some (JArr a)"
    and l: "map_of kvs ''locationItems'' = Some (JArr l)"
    and sa: "map source_of a = map Some sa"
    and sl: "map source_of l = map Some sl"
  shows "sync_mapping_with_csv_headers (JObj kvs) ah lh =
     (if missing_headers sa ah \<noteq> [] \<or> missing_headers sl lh \<noteq> []
      then (Inr True,
            JObj (set_key ''locationItems'' (JArr (l @ map identity_entry (missing_headers sl lh)))
                   (set_key ''accountItems'' (JArr (a @ map identity_entry (missing_headers sa ah))) kvs)))
      else (Inr False, JObj kvs))"
proof -
  let ?a' = "JArr (a @ map identity_entry (missing_headers sa ah))"
  have l1: "map_of (set_key ''accountItems'' ?a' kvs) ''locationItems'' = Some (JArr l)"
    by (simp add: map_of_set_key l)
  show ?thesis
    by (simp add: sync_mapping_with_csv_headers_def a l1 add_missing_sources_list [OF sa]
          add_missing_sources_list [OF sl] Let_def)
qed

subsection \<open>create_portfolio\<close>

lemma validate_method_POST: "validate_non_empty_string (JStr ''POST'') name = Inr ()"
  by (simp add: validate_non_empty_string_def is_space_def)

lemma request_POST_world:
  "snd (request cl ''POST'' path None None [] (Some data) w) =
     advance (fst (exchange cl (length (sent w))
        \<lparr>req_method = ''POST'', req_url = base_url cl @ ''/'' @ lstrip_slash path,
         req_params = [], req_json = Some data\<rparr>))
       \<lparr>req_method = ''POST'', req_url = base_url cl @ ''/'' @ lstrip_slash path,
         req_params = [], req_json = Some data\<rparr> w"
  by (simp add: request_def validate_method_POST truthy_def Let_def split: prod.splits option.splits)

lemma create_portfolio_submit_world:
  "snd (create_portfolio_submit cl K portfolio_name exposure_id data w) =
     snd (request cl ''POST'' (CREATE_PORTFOLIO K exposure_id) None None [] (Some data) w)"
  by (simp add: create_portfolio_submit_def split: prod.splits sum.splits)

lemma create_portfolio_submit_sent:
  "sent (snd (create_portfolio_submit cl K portfolio_name exposure_id data w)) =
     sent w @ [creation_request cl K exposure_id data]"
  by (simp add: create_portfolio_submit_world request_POST_world sent_advance creation_request_def)

lemma create_portfolio_submit_data:
  "create_portfolio_submit cl K portfolio_name exposure_id data w = (Inr (pid, data'), w') \<Longrightarrow> data' = data"
  by (auto simp add: create_portfolio_submit_def split: prod.splits sum.splits)

lemma create_portfolio_reaches_submit:
  assumes "\<not> list_all is_space edm_name" "\<not> list_all is_space portfolio_name"
    "\<not> list_all is_space portfolio_number"
    "search_edms (''exposureName='' @ dq @ edm_name @ dq) w = (Inr edms, w1)"
    "py_len edms = Inr 1" "py_first edms = Inr edm" "subscript edm ''exposureId'' = Inr exposure_id"
    "search_portfolios cl K exposure_id (''portfolioName='' @ dq @ portfolio_name @ dq) w1 = (Inr portfolios, w2)"
    "py_len portfolios = Inr 0"
  shows "create_portfolio cl K search_edms edm_name portfolio_name portfolio_number description w =
     create_portfolio_submit cl K portfolio_name exposure_id
       (portfolio_data portfolio_name portfolio_number description) w2"
  using assms by (simp add: create_portfolio_def validate_non_empty_string_ok)

lemma create_portfolio_returns_via_submit:
  assumes "create_portfolio cl K search_edms edm_name portfolio_name portfolio_number description w =
     (Inr (pid, data), w')"
  shows "\<exists>exposure_id w2. create_portfolio_submit cl K portfolio_name exposure_id
       (portfolio_data portfolio_name portfolio_number description) w2 = (Inr (pid, data), w')"
  using assms
  by (auto simp add: create_portfolio_def split: prod.splits sum.splits if_splits)

lemma search_portfolios_example:
  "search_portfolios portfolio_client example_constants (JNum 7)
     (''portfolioName='' @ dq @ ''Book'' @ dq) \<lparr>clock = 0, sent = []\<rparr> =
   (Inr (JArr []), \<lparr>clock = 0, sent = [search_request]\<rparr>)"
  by (simp add: search_portfolios_def validate_positive_int_def request_def validate_method_GET
        truthy_def Let_def portfolio_client_def no_portfolios_reply_def json_of_def advance_def
        example_constants_def lstrip_slash_def search_request_def dq_def)

lemma py_int_42: "py_int ''42'' = Inr 42"
  by (simp add: py_int_def int_strip_def int_space_def parse_unsigned_def digit_of_def)

lemma create_portfolio_submit_example:
  "create_portfolio_submit portfolio_client example_constants ''Book'' (JNum 7) data
     \<lparr>clock = 0, sent = [search_request]\<rparr> =
   (Inr (42, data),
    \<lparr>clock = 0, sent = [search_request,
       \<lparr>req_method = ''POST'', req_url = ''https://host/portfolios'', req_params = [],
        req_json = Some data\<rparr>]\<rparr>)"
  by (simp add: create_portfolio_submit_def request_def validate_method_POST truthy_def Let_def
        portfolio_client_def created_reply_def advance_def example_constants_def lstrip_slash_def
        extract_id_from_location_header_def get_location_header_def header_def lower_def
        lower_char_def small_letters_def capital_letters_def last_segment_def py_int_42)

section \<open>The claims\<close>




text \<open>
  \<^bold>\<open>C2\<close> (an interval beyond the timeout), as the code has it.  The timeout is checked
  right after each fetch and before the sleep, so the first check sees only the time the
  first fetch took.  For \<open>0 < T < I\<close> and statuses that are never completed, each single
  poller (\<^verbatim>\<open>poll_workflow_to_completion\<close>, \<^verbatim>\<open>poll_workflow\<close>) raises its timeout error
  with the last status it saw: after exactly one fetch when that fetch itself took longer
  than \<open>T\<close>, and otherwise after exactly two fetches, the second one coming after the
  sleep of \<open>I\<close> seconds (the two exchanges taking no negative time together).
\<close>

theorem single_poll_interval_beyond_timeout:
  assumes T: "0 < T" and I: "T < I"
  shows
    "(\<forall>d1 r1 j1 s1 p1.
        0 < workflow_id \<and>
        answers_json cl w (id_request cl (GET_WORKFLOW_BY_ID K workflow_id)) d1 r1 j1 \<and>
        status_and_progress j1 = Inr (s1, p1) \<and>
        \<not> status_in s1 (WORKFLOW_COMPLETED_STATUSES K) \<and> d1 > real_of_int T \<longrightarrow>
        poll_workflow_to_completion cl K workflow_id I T w =
          Some (Inl (Error IRPJobError
                  [Lit ''Risk data workflow ID '', Val (JNum workflow_id),
                   Lit '' did not complete within '', Val (JNum T),
                   Lit '' seconds. Last status: '', Val s1]),
                advance d1 (id_request cl (GET_WORKFLOW_BY_ID K workflow_id)) w)) \<and>
     (\<forall>d1 r1 j1 s1 p1 d2 r2 j2 s2 p2.
        0 < workflow_id \<and>
        answers_json cl w (id_request cl (GET_WORKFLOW_BY_ID K workflow_id)) d1 r1 j1 \<and>
        status_and_progress j1 = Inr (s1, p1) \<and>
        \<not> status_in s1 (WORKFLOW_COMPLETED_STATUSES K) \<and> d1 \<le> real_of_int T \<and>
        answers_json cl
          (sleep I (advance d1 (id_request cl (GET_WORKFLOW_BY_ID K workflow_id)) w))
          (id_request cl (GET_WORKFLOW_BY_ID K workflow_id)) d2 r2 j2 \<and>
        status_and_progress j2 = Inr (s2, p2) \<and>
        \<not> status_in s2 (WORKFLOW_COMPLETED_STATUSES K) \<and> 0 \<le> d1 + d2 \<longrightarrow>
        poll_workflow_to_completion cl K workflow_id I T w =
          Some (Inl (Error IRPJobError
                  [Lit ''Risk data workflow ID '', Val (JNum workflow_id),
                   Lit '' did not complete within '', Val (JNum T),
                   Lit '' seconds. Last status: '', Val s2]),
                advance d2 (id_request cl (GET_WORKFLOW_BY_ID K workflow_id))
                  (sleep I (advance d1 (id_request cl (GET_WORKFLOW_BY_ID K workflow_id)) w)))) \<and>
     (\<forall>d1 r1 s1.
        \<not> list_all is_space url \<and>
        answers_status cl w (status_request url) d1 r1 s1 \<and>
        \<not> status_in s1 (WORKFLOW_COMPLETED_STATUSES K) \<and> d1 > real_of_int T \<longrightarrow>
        poll_workflow cl K url I T w =
          Some (Inl (Error IRPWorkflowError
                  [Lit ''Workflow did not complete within '', Val (JNum T),
                   Lit '' seconds. Last status: '', Val s1]),
                advance d1 (status_request url) w)) \<and>
     (\<forall>d1 r1 s1 d2 r2 s2.
        \<not> list_all is_space url \<and>
        answers_status cl w (status_request url) d1 r1 s1 \<and>
        \<not> status_in s1 (WORKFLOW_COMPLETED_STATUSES K) \<and> d1 \<le> real_of_int T \<and>
        answers_status cl (sleep I (advance d1 (status_request url) w)) (status_request url) d2 r2 s2 \<and>
        \<not> status_in s2 (WORKFLOW_COMPLETED_STATUSES K) \<and> 0 \<le> d1 + d2 \<longrightarrow>
        poll_workflow cl K url I T w =
          Some (Inl (Error IRPWorkflowError
                  [Lit ''Workflow did not complete within '', Val (JNum T),
                   Lit '' seconds. Last status: '', Val s2]),
                advance d2 (status_request url) (sleep I (advance d1 (status_request url) w))))"
proof -
  have Ipos: "0 < I" using T I by simp
  have byid: "poll_workflow_to_completion cl K workflow_id I T w =
      poll_workflow_to_completion_loop cl K workflow_id I T (clock w) w" if "0 < workflow_id"
    using that T Ipos by (simp add: poll_workflow_to_completion_def validate_positive_int_pos)
  have byurl: "poll_workflow cl K url I T w = poll_workflow_loop cl K url I T (clock w) w"
    if "\<not> list_all is_space url"
    using that T Ipos
    by (simp add: poll_workflow_def validate_positive_int_pos validate_non_empty_string_ok)
  show ?thesis
  proof (intro conjI allI impI)
    fix d1 r1 j1 s1 p1
    let ?rq = "id_request cl (GET_WORKFLOW_BY_ID K workflow_id)"
    assume h: "0 < workflow_id \<and> answers_json cl w ?rq d1 r1 j1 \<and>
        status_and_progress j1 = Inr (s1, p1) \<and>
        \<not> status_in s1 (WORKFLOW_COMPLETED_STATUSES K) \<and> d1 > real_of_int T"
    then show "poll_workflow_to_completion cl K workflow_id I T w =
          Some (Inl (Error IRPJobError
                  [Lit ''Risk data workflow ID '', Val (JNum workflow_id),
                   Lit '' did not complete within '', Val (JNum T),
                   Lit '' seconds. Last status: '', Val s1]), advance d1 ?rq w)"
      using poll_workflow_to_completion_loop_tick [of workflow_id cl w K d1 r1 j1 I T "clock w"]
      by (simp add: byid clock_advance)
  next
    fix d1 r1 j1 s1 p1 d2 r2 j2 s2 p2
    let ?rq = "id_request cl (GET_WORKFLOW_BY_ID K workflow_id)"
    let ?w1 = "sleep I (advance d1 ?rq w)"
    assume h: "0 < workflow_id \<and> answers_json cl w ?rq d1 r1 j1 \<and>
        status_and_progress j1 = Inr (s1, p1) \<and>
        \<not> status_in s1 (WORKFLOW_COMPLETED_STATUSES K) \<and> d1 \<le> real_of_int T \<and>
        answers_json cl ?w1 ?rq d2 r2 j2 \<and>
        status_and_progress j2 = Inr (s2, p2) \<and>
        \<not> status_in s2 (WORKFLOW_COMPLETED_STATUSES K) \<and> 0 \<le> d1 + d2"
    have t1: "poll_workflow_to_completion_loop cl K workflow_id I T (clock w) w =
              poll_workflow_to_completion_loop cl K workflow_id I T (clock w) ?w1"
      using h poll_workflow_to_completion_loop_tick [of workflow_id cl w K d1 r1 j1 I T "clock w"]
      by (simp add: clock_advance)
    have late: "clock (advance d2 ?rq ?w1) - clock w > real_of_int T"
      using h I by (simp add: clock_advance clock_sleep)
    have t2: "poll_workflow_to_completion_loop cl K workflow_id I T (clock w) ?w1 =
          Some (Inl (Error IRPJobError
                  [Lit ''Risk data workflow ID '', Val (JNum workflow_id),
                   Lit '' did not complete within '', Val (JNum T),
                   Lit '' seconds. Last status: '', Val s2]), advance d2 ?rq ?w1)"
      using h late poll_workflow_to_completion_loop_tick [of workflow_id cl ?w1 K d2 r2 j2 I T "clock w"]
      by simp
    show "poll_workflow_to_completion cl K workflow_id I T w =
          Some (Inl (Error IRPJobError
                  [Lit ''Risk data workflow ID '', Val (JNum workflow_id),
                   Lit '' did not complete within '', Val (JNum T),
                   Lit '' seconds. Last status: '', Val s2]), advance d2 ?rq ?w1)"
      using h byid t1 t2 by simp
  next
    fix d1 r1 s1
    let ?rq = "status_request url"
    assume h: "\<not> list_all is_space url \<and> answers_status cl w ?rq d1 r1 s1 \<and>
        \<not> status_in s1 (WORKFLOW_COMPLETED_STATUSES K) \<and> d1 > real_of_int T"
    then have url: "url \<noteq> []" by auto
    show "poll_workflow cl K url I T w =
          Some (Inl (Error IRPWorkflowError
                  [Lit ''Workflow did not complete within '', Val (JNum T),
                   Lit '' seconds. Last status: '', Val s1]), advance d1 ?rq w)"
      using h url poll_workflow_loop_tick [of cl w url d1 r1 s1 K I T "clock w"]
      by (simp add: byurl clock_advance)
  next
    fix d1 r1 s1 d2 r2 s2
    let ?rq = "status_request url"
    let ?w1 = "sleep I (advance d1 ?rq w)"
    assume h: "\<not> list_all is_space url \<and> answers_status cl w ?rq d1 r1 s1 \<and>
        \<not> status_in s1 (WORKFLOW_COMPLETED_STATUSES K) \<and> d1 \<le> real_of_int T \<and>
        answers_status cl ?w1 ?rq d2 r2 s2 \<and>
        \<not> status_in s2 (WORKFLOW_COMPLETED_STATUSES K) \<and> 0 \<le> d1 + d2"
    then have url: "url \<noteq> []" by auto
    have t1: "poll_workflow_loop cl K url I T (clock w) w = poll_workflow_loop cl K url I T (clock w) ?w1"
      using h url poll_workflow_loop_tick [of cl w url d1 r1 s1 K I T "clock w"]
      by (simp add: clock_advance)
    have late: "clock (advance d2 ?rq ?w1) - clock w > real_of_int T"
      using h I by (simp add: clock_advance clock_sleep)
    have t2: "poll_workflow_loop cl K url I T (clock w) ?w1 =
          Some (Inl (Error IRPWorkflowError
                  [Lit ''Workflow did not complete within '', Val (JNum T),
                   Lit '' seconds. Last status: '', Val s2]), advance d2 ?rq ?w1)"
      using h url late poll_workflow_loop_tick [of cl ?w1 url d2 r2 s2 K I T "clock w"]
      by simp
    show "poll_workflow cl K url I T w =
          Some (Inl (Error IRPWorkflowError
                  [Lit ''Workflow did not complete within '', Val (JNum T),
                   Lit '' seconds. Last status: '', Val s2]), advance d2 ?rq ?w1)"
      using h byurl t1 t2 by simp
  qed
qed

text \<open>The claim as stated fails: with timeout 1 and interval 2, and exchanges that take no
  time, the poller fetches twice before it raises.\<close>

theorem single_poll_interval_beyond_timeout_counterexample:
  "poll_workflow_to_completion (constant_client ''RUNNING'') example_constants 7 2 1
     \<lparr>clock = 0, sent = []\<rparr> =
   Some (Inl (Error IRPJobError
           [Lit ''Risk data workflow ID '', Val (JNum 7), Lit '' did not complete within '',
            Val (JNum 1), Lit '' seconds. Last status: '', Val (JStr ''RUNNING'')]),
         \<lparr>clock = 2, sent = [workflow_7_request, workflow_7_request]\<rparr>)"
proof -
  let ?cl = "constant_client ''RUNNING''"
  let ?w0 = "\<lparr>clock = 0, sent = []\<rparr> :: world"
  let ?w1 = "sleep 2 (advance 0 workflow_7_request ?w0)"
  have t1: "poll_workflow_to_completion_loop ?cl example_constants 7 2 1 0 ?w0 =
            poll_workflow_to_completion_loop ?cl example_constants 7 2 1 0 ?w1"
    using poll_workflow_to_completion_loop_tick
            [of 7 ?cl ?w0 example_constants 0 "status_reply ''RUNNING'' 100" _ 2 1 0,
             OF _ constant_client_answers_json]
    by (simp add: id_request_7 status_and_progress_reply running_not_completed clock_advance)
  have t2: "poll_workflow_to_completion_loop ?cl example_constants 7 2 1 0 ?w1 =
            Some (Inl (Error IRPJobError
              [Lit ''Risk data workflow ID '', Val (JNum 7), Lit '' did not complete within '',
               Val (JNum 1), Lit '' seconds. Last status: '', Val (JStr ''RUNNING'')]),
              advance 0 workflow_7_request ?w1)"
    using poll_workflow_to_completion_loop_tick
            [of 7 ?cl ?w1 example_constants 0 "status_reply ''RUNNING'' 100" _ 2 1 0,
             OF _ constant_client_answers_json]
    by (simp add: id_request_7 status_and_progress_reply running_not_completed clock_advance
          clock_sleep)
  have w: "advance 0 workflow_7_request ?w1 = \<lparr>clock = 2, sent = [workflow_7_request, workflow_7_request]\<rparr>"
    by (simp add: advance_def sleep_def)
  show ?thesis
    by (simp add: poll_workflow_to_completion_def validate_positive_int_def t1 t2 w)
qed

text \<open>The theorem at timeout 5 and interval 10, for both pollers.\<close>

theorem single_poll_interval_beyond_timeout_witness:
  "(0::int) < 5 \<and> (5::int) < 10 \<and>
   poll_workflow_to_completion (constant_client ''RUNNING'') example_constants 7 10 5
     \<lparr>clock = 0, sent = []\<rparr> =
   Some (Inl (Error IRPJobError
           [Lit ''Risk data workflow ID '', Val (JNum 7), Lit '' did not complete within '',
            Val (JNum 5), Lit '' seconds. Last status: '', Val (JStr ''RUNNING'')]),
         \<lparr>clock = 10, sent = [workflow_7_request, workflow_7_request]\<rparr>) \<and>
   poll_workflow (constant_client ''RUNNING'') example_constants ''https://host/workflows/42'' 10 5
     \<lparr>clock = 0, sent = []\<rparr> =
   Some (Inl (Error IRPWorkflowError
           [Lit ''Workflow did not complete within '', Val (JNum 5),
            Lit '' seconds. Last status: '', Val (JStr ''RUNNING'')]),
         \<lparr>clock = 10, sent = [status_request ''https://host/workflows/42'',
                               status_request ''https://host/workflows/42'']\<rparr>)"
proof -
  let ?cl = "constant_client ''RUNNING''"
  let ?w0 = "\<lparr>clock = 0, sent = []\<rparr> :: world"
  let ?url = "''https://host/workflows/42''"
  let ?j = "JObj [(''status'', JStr ''RUNNING''), (''progress'', JNum 100)]"
  have T: "(0::int) < 5" and I: "(5::int) < 10"
    by simp_all
  note th = single_poll_interval_beyond_timeout
              [OF T I, where workflow_id = 7 and cl = ?cl and w = ?w0 and K = example_constants
                 and url = ?url]
  have nb: "\<not> list_all is_space ?url"
    by (simp add: is_space_def)
  have a: "poll_workflow_to_completion ?cl example_constants 7 10 5 ?w0 =
     Some (Inl (Error IRPJobError
           [Lit ''Risk data workflow ID '', Val (JNum 7), Lit '' did not complete within '',
            Val (JNum 5), Lit '' seconds. Last status: '', Val (JStr ''RUNNING'')]),
         advance 0 workflow_7_request (sleep 10 (advance 0 workflow_7_request ?w0)))"
    using th [THEN conjunct2, THEN conjunct1, rule_format,
              of 0 "status_reply ''RUNNING'' 100" ?j "JStr ''RUNNING''" "JNum 100"
                 0 "status_reply ''RUNNING'' 100" ?j "JStr ''RUNNING''" "JNum 100"]
    by (simp add: id_request_7 constant_client_answers_json status_and_progress_reply
          running_not_completed)
  have b: "poll_workflow ?cl example_constants ?url 10 5 ?w0 =
     Some (Inl (Error IRPWorkflowError
           [Lit ''Workflow did not complete within '', Val (JNum 5),
            Lit '' seconds. Last status: '', Val (JStr ''RUNNING'')]),
         advance 0 (status_request ?url) (sleep 10 (advance 0 (status_request ?url) ?w0)))"
    using th [THEN conjunct2, THEN conjunct2, THEN conjunct2, rule_format,
              of 0 "status_reply ''RUNNING'' 100" "JStr ''RUNNING''"
                 0 "status_reply ''RUNNING'' 100" "JStr ''RUNNING''"] nb
    by (simp add: constant_client_answers_status running_not_completed)
  show ?thesis
    using a b by (simp add: advance_def sleep_def)
qed

text \<open>
  \<^bold>\<open>C3\<close> (a status record without its fields), as the code has it.  In the pollers by
  identifier (\<^verbatim>\<open>poll_workflow_to_completion\<close>, \<^verbatim>\<open>poll_geohaz_job_to_completion\<close>) a tick
  whose record lacks \<^verbatim>\<open>status\<close> or \<^verbatim>\<open>progress\<close> raises an IRPAPIError on that tick, naming
  the first missing key; nothing more is fetched.  The poller by URL (\<^verbatim>\<open>poll_workflow\<close>)
  reads a missing \<^verbatim>\<open>status\<close> as the empty string: unless the empty string is a completed
  status, the tick raises the timeout error when the time is up and otherwise sleeps and
  polls again.
\<close>

theorem poll_tick_missing_fields:
  "(\<forall>d r kvs.
      0 < workflow_id \<and>
      answers_json cl w (id_request cl (GET_WORKFLOW_BY_ID K workflow_id)) d r (JObj kvs) \<and>
      (map_of kvs ''status'' = None \<or> map_of kvs ''progress'' = None) \<longrightarrow>
      poll_workflow_to_completion_loop cl K workflow_id interval timeout start w =
        Some (Inl (Error IRPAPIError
                [Lit ''Missing 'status' or 'progress' in job response for workflow ID '',
                 Val (JNum workflow_id), Lit '': '',
                 Exc (Error KeyError
                   [Val (JStr (if map_of kvs ''status'' = None then ''status'' else ''progress''))])]),
              advance d (id_request cl (GET_WORKFLOW_BY_ID K workflow_id)) w)) \<and>
   (\<forall>d r kvs.
      0 < job_id \<and>
      answers_json cl w (id_request cl (GET_GEOHAZ_JOB K job_id)) d r (JObj kvs) \<and>
      (map_of kvs ''status'' = None \<or> map_of kvs ''progress'' = None) \<longrightarrow>
      poll_geohaz_job_to_completion_loop cl K job_id interval timeout start w =
        Some (Inl (Error IRPAPIError
                [Lit ''Missing 'status' or 'progress' in job response for job ID '',
                 Val (JNum job_id), Lit '': '',
                 Exc (Error KeyError
                   [Val (JStr (if map_of kvs ''status'' = None then ''status'' else ''progress''))])]),
              advance d (id_request cl (GET_GEOHAZ_JOB K job_id)) w)) \<and>
   (\<forall>d r kvs.
      url \<noteq> [] \<and>
      answers_json cl w (status_request url) d r (JObj kvs) \<and>
      map_of kvs ''status'' = None \<and>
      \<not> status_in (JStr '''') (WORKFLOW_COMPLETED_STATUSES K) \<longrightarrow>
      poll_workflow_loop cl K url interval timeout start w =
        (if clock (advance d (status_request url) w) - start > real_of_int timeout
         then Some (Inl (Error IRPWorkflowError
                [Lit ''Workflow did not complete within '', Val (JNum timeout),
                 Lit '' seconds. Last status: '', Val (JStr '''')]),
                advance d (status_request url) w)
         else poll_workflow_loop cl K url interval timeout start
                (sleep interval (advance d (status_request url) w))))"
proof (intro conjI allI impI)
  fix d r kvs
  assume h: "0 < workflow_id \<and>
      answers_json cl w (id_request cl (GET_WORKFLOW_BY_ID K workflow_id)) d r (JObj kvs) \<and>
      (map_of kvs ''status'' = None \<or> map_of kvs ''progress'' = None)"
  then show "poll_workflow_to_completion_loop cl K workflow_id interval timeout start w =
        Some (Inl (Error IRPAPIError
                [Lit ''Missing 'status' or 'progress' in job response for workflow ID '',
                 Val (JNum workflow_id), Lit '': '',
                 Exc (Error KeyError
                   [Val (JStr (if map_of kvs ''status'' = None then ''status'' else ''progress''))])]),
              advance d (id_request cl (GET_WORKFLOW_BY_ID K workflow_id)) w)"
    using poll_workflow_to_completion_loop_tick [of workflow_id cl w K d r "JObj kvs" interval timeout start]
          status_and_progress_missing [of kvs]
    by simp
next
  fix d r kvs
  assume h: "0 < job_id \<and>
      answers_json cl w (id_request cl (GET_GEOHAZ_JOB K job_id)) d r (JObj kvs) \<and>
      (map_of kvs ''status'' = None \<or> map_of kvs ''progress'' = None)"
  then show "poll_geohaz_job_to_completion_loop cl K job_id interval timeout start w =
        Some (Inl (Error IRPAPIError
                [Lit ''Missing 'status' or 'progress' in job response for job ID '',
                 Val (JNum job_id), Lit '': '',
                 Exc (Error KeyError
                   [Val (JStr (if map_of kvs ''status'' = None then ''status'' else ''progress''))])]),
              advance d (id_request cl (GET_GEOHAZ_JOB K job_id)) w)"
    using poll_geohaz_job_to_completion_loop_tick [of job_id cl w K d r "JObj kvs" interval timeout start]
          status_and_progress_missing [of kvs]
    by simp
next
  fix d r kvs
  assume h: "url \<noteq> [] \<and>
      answers_json cl w (status_request url) d r (JObj kvs) \<and>
      map_of kvs ''status'' = None \<and>
      \<not> status_in (JStr '''') (WORKFLOW_COMPLETED_STATUSES K)"
  then have "answers_status cl w (status_request url) d r (JStr '''')"
    by (simp add: answers_status_def answers_json_def get_default_def)
  with h show "poll_workflow_loop cl K url interval timeout start w =
        (if clock (advance d (status_request url) w) - start > real_of_int timeout
         then Some (Inl (Error IRPWorkflowError
                [Lit ''Workflow did not complete within '', Val (JNum timeout),
                 Lit '' seconds. Last status: '', Val (JStr '''')]),
                advance d (status_request url) w)
         else poll_workflow_loop cl K url interval timeout start
                (sleep interval (advance d (status_request url) w)))"
    using poll_workflow_loop_tick [of cl w url d r "JStr ''''" K interval timeout start]
    by simp
qed

text \<open>The claim as stated fails for \<^verbatim>\<open>poll_workflow\<close>: against a session that always
  answers the empty object it fetches three times and ends with the timeout error.\<close>

theorem poll_tick_missing_fields_counterexample:
  "poll_workflow empty_body_client example_constants ''https://host/workflows/42'' 1 1
     \<lparr>clock = 0, sent = []\<rparr> =
   Some (Inl (Error IRPWorkflowError
           [Lit ''Workflow did not complete within '', Val (JNum 1),
            Lit '' seconds. Last status: '', Val (JStr '''')]),
         \<lparr>clock = 2, sent = [status_request ''https://host/workflows/42'',
                              status_request ''https://host/workflows/42'',
                              status_request ''https://host/workflows/42'']\<rparr>)"
proof -
  let ?url = "''https://host/workflows/42''"
  let ?rq = "status_request ?url"
  let ?w0 = "\<lparr>clock = 0, sent = []\<rparr> :: world"
  let ?w1 = "sleep 1 (advance 0 ?rq ?w0)"
  let ?w2 = "sleep 1 (advance 0 ?rq ?w1)"
  have a: "answers_status empty_body_client w ?rq 0 empty_reply (JStr '''')" for w
    by (simp add: answers_status_def empty_body_client_def empty_reply_def passes_def get_default_def)
  have url: "?url \<noteq> []" by simp
  have t1: "poll_workflow_loop empty_body_client example_constants ?url 1 1 0 ?w0 =
            poll_workflow_loop empty_body_client example_constants ?url 1 1 0 ?w1"
    using poll_workflow_loop_tick [of empty_body_client ?w0 ?url 0 empty_reply "JStr ''''" example_constants 1 1 0, OF a url]
    by (simp add: empty_not_completed clock_advance)
  have t2: "poll_workflow_loop empty_body_client example_constants ?url 1 1 0 ?w1 =
            poll_workflow_loop empty_body_client example_constants ?url 1 1 0 ?w2"
    using poll_workflow_loop_tick [of empty_body_client ?w1 ?url 0 empty_reply "JStr ''''" example_constants 1 1 0, OF a url]
    by (simp add: empty_not_completed clock_advance clock_sleep)
  have t3: "poll_workflow_loop empty_body_client example_constants ?url 1 1 0 ?w2 =
            Some (Inl (Error IRPWorkflowError
              [Lit ''Workflow did not complete within '', Val (JNum 1),
               Lit '' seconds. Last status: '', Val (JStr '''')]), advance 0 ?rq ?w2)"
    using poll_workflow_loop_tick [of empty_body_client ?w2 ?url 0 empty_reply "JStr ''''" example_constants 1 1 0, OF a url]
    by (simp add: empty_not_completed clock_advance clock_sleep)
  have w: "advance 0 ?rq ?w2 = \<lparr>clock = 2, sent = [?rq, ?rq, ?rq]\<rparr>"
    by (simp add: advance_def sleep_def)
  show ?thesis
    by (simp add: poll_workflow_def validate_positive_int_def validate_non_empty_string_def
          is_space_def t1 t2 t3 w)
qed

text \<open>The theorem at the same session: the poller by identifier fails on its first tick,
  the poller by URL goes on to its second.\<close>

theorem poll_tick_missing_fields_witness:
  "poll_workflow_to_completion_loop empty_body_client example_constants 7 10 600 0
     \<lparr>clock = 0, sent = []\<rparr> =
   Some (Inl (Error IRPAPIError
           [Lit ''Missing 'status' or 'progress' in job response for workflow ID '',
            Val (JNum 7), Lit '': '', Exc (Error KeyError [Val (JStr ''status'')])]),
         \<lparr>clock = 0, sent = [workflow_7_request]\<rparr>) \<and>
   poll_workflow_loop empty_body_client example_constants ''https://host/workflows/42'' 10 600 0
     \<lparr>clock = 0, sent = []\<rparr> =
   poll_workflow_loop empty_body_client example_constants ''https://host/workflows/42'' 10 600 0
     \<lparr>clock = 10, sent = [status_request ''https://host/workflows/42'']\<rparr>"
proof -
  let ?w0 = "\<lparr>clock = 0, sent = []\<rparr> :: world"
  let ?url = "''https://host/workflows/42''"
  note th = poll_tick_missing_fields
              [where cl = empty_body_client and K = example_constants and w = ?w0
                 and workflow_id = 7 and url = ?url and interval = 10 and timeout = 600
                 and start = 0]
  have b: "base_url empty_body_client = ''https://host''"
    by (simp add: empty_body_client_def)
  have a: "poll_workflow_to_completion_loop empty_body_client example_constants 7 10 600 0 ?w0 =
   Some (Inl (Error IRPAPIError
           [Lit ''Missing 'status' or 'progress' in job response for workflow ID '',
            Val (JNum 7), Lit '': '', Exc (Error KeyError [Val (JStr ''status'')])]),
         advance 0 workflow_7_request ?w0)"
    using th [THEN conjunct1, rule_format, of 0 empty_reply "[]"]
    by (simp add: id_request_7_host [OF b] empty_body_client_answers)
  have c: "poll_workflow_loop empty_body_client example_constants ?url 10 600 0 ?w0 =
     poll_workflow_loop empty_body_client example_constants ?url 10 600 0
       (sleep 10 (advance 0 (status_request ?url) ?w0))"
    using th [THEN conjunct2, THEN conjunct2, rule_format, of 0 empty_reply "[]"]
    by (simp add: empty_body_client_answers empty_not_completed clock_advance)
  show ?thesis
    using a c by (simp add: advance_def sleep_def)
qed

text \<open>
  \<^bold>\<open>C4\<close> (pagination within a batch tick), as the code has it.  The inner loop stops at
  the first page with which the number of workflows fetched so far reaches the
  \<^verbatim>\<open>totalMatchCount\<close> that page reports.  So with 250 reported on every page there are
  exactly three fetches, at offsets 0, 100 and 200, when the first page and the first two
  pages together bring fewer than 250 workflows and the first three bring at least 250 (as
  pages of 100, 100 and 50 do).  And a tick that is incomplete and within the timeout is
  followed, after the sleep, by the same loop on the new world: the next tick starts its
  pagination again with offset 0 and nothing fetched.
\<close>

theorem batch_pagination_three_pages:
  "(\<forall>d0 r0 p0 d1 r1 p1 d2 r2 p2.
      answers_page cl w (page_request cl K ids 0) d0 r0 250 p0 \<and>
      answers_page cl (advance d0 (page_request cl K ids 0) w) (page_request cl K ids 100) d1 r1 250 p1 \<and>
      answers_page cl
        (advance d1 (page_request cl K ids 100) (advance d0 (page_request cl K ids 0) w))
        (page_request cl K ids 200) d2 r2 250 p2 \<and>
      length p0 < 250 \<and> length p0 + length p1 < 250 \<and>
      250 \<le> length p0 + length p1 + length p2 \<longrightarrow>
      fetch_workflow_pages cl K ids 0 [] w =
        Some (Inr (r2, p0 @ p1 @ p2),
              advance d2 (page_request cl K ids 200)
                (advance d1 (page_request cl K ids 100) (advance d0 (page_request cl K ids 0) w))) \<and>
      sent (advance d2 (page_request cl K ids 200)
             (advance d1 (page_request cl K ids 100) (advance d0 (page_request cl K ids 0) w))) =
        sent w @ [page_request cl K ids 0, page_request cl K ids 100, page_request cl K ids 200]) \<and>
   (\<forall>response all_workflows w1.
      fetch_workflow_pages cl K ids 0 [] w = Some (Inr (response, all_workflows), w1) \<and>
      all_completed (WORKFLOW_IN_PROGRESS_STATUSES K) all_workflows = Inr False \<and>
      clock w1 - start \<le> real_of_int timeout \<longrightarrow>
      poll_workflow_batch_to_completion_loop cl K ids interval timeout start w =
        poll_workflow_batch_to_completion_loop cl K ids interval timeout start (sleep interval w1) \<and>
      poll_import_job_batch_to_completion_loop cl K ids interval timeout start w =
        poll_import_job_batch_to_completion_loop cl K ids interval timeout start (sleep interval w1))"
proof (intro conjI allI impI)
  fix d0 r0 p0 d1 r1 p1 d2 r2 p2
  let ?q0 = "page_request cl K ids 0" and ?q1 = "page_request cl K ids 100"
    and ?q2 = "page_request cl K ids 200"
  let ?w1 = "advance d0 ?q0 w"
  let ?w2 = "advance d1 ?q1 ?w1"
  let ?w3 = "advance d2 ?q2 ?w2"
  assume h: "answers_page cl w ?q0 d0 r0 250 p0 \<and>
      answers_page cl ?w1 ?q1 d1 r1 250 p1 \<and>
      answers_page cl ?w2 ?q2 d2 r2 250 p2 \<and>
      length p0 < 250 \<and> length p0 + length p1 < 250 \<and>
      250 \<le> length p0 + length p1 + length p2"
  have s0: "fetch_workflow_pages cl K ids 0 [] w = fetch_workflow_pages cl K ids 100 p0 ?w1"
    using h fetch_workflow_pages_page [of cl w K ids 0 d0 r0 250 p0 "[]"] by simp
  have s1: "fetch_workflow_pages cl K ids 100 p0 ?w1 = fetch_workflow_pages cl K ids 200 (p0 @ p1) ?w2"
    using h fetch_workflow_pages_page [of cl ?w1 K ids 100 d1 r1 250 p1 p0] by simp
  have s2: "fetch_workflow_pages cl K ids 200 (p0 @ p1) ?w2 = Some (Inr (r2, p0 @ p1 @ p2), ?w3)"
    using h fetch_workflow_pages_page [of cl ?w2 K ids 200 d2 r2 250 p2 "p0 @ p1"] by simp
  show "fetch_workflow_pages cl K ids 0 [] w = Some (Inr (r2, p0 @ p1 @ p2), ?w3)"
    using s0 s1 s2 by simp
next
  fix d0 d1 d2
  show "sent (advance d2 (page_request cl K ids 200)
             (advance d1 (page_request cl K ids 100) (advance d0 (page_request cl K ids 0) w))) =
        sent w @ [page_request cl K ids 0, page_request cl K ids 100, page_request cl K ids 200]"
    by (simp add: sent_advance)
next
  fix response all_workflows w1
  assume h: "fetch_workflow_pages cl K ids 0 [] w = Some (Inr (response, all_workflows), w1) \<and>
      all_completed (WORKFLOW_IN_PROGRESS_STATUSES K) all_workflows = Inr False \<and>
      clock w1 - start \<le> real_of_int timeout"
  then show "poll_workflow_batch_to_completion_loop cl K ids interval timeout start w =
        poll_workflow_batch_to_completion_loop cl K ids interval timeout start (sleep interval w1)"
    by (subst poll_workflow_batch_to_completion_loop.simps) simp
next
  fix response all_workflows w1
  assume h: "fetch_workflow_pages cl K ids 0 [] w = Some (Inr (response, all_workflows), w1) \<and>
      all_completed (WORKFLOW_IN_PROGRESS_STATUSES K) all_workflows = Inr False \<and>
      clock w1 - start \<le> real_of_int timeout"
  then show "poll_import_job_batch_to_completion_loop cl K ids interval timeout start w =
        poll_import_job_batch_to_completion_loop cl K ids interval timeout start (sleep interval w1)"
    by (subst poll_import_job_batch_to_completion_loop.simps) simp
qed

text \<open>The claim as stated fails: the number of fetches follows the number of workflows the
  pages bring.  With 250 reported and 50 workflows on every page the tick makes five fetches,
  at offsets 0 to 400.\<close>

theorem batch_pagination_three_pages_counterexample:
  "poll_workflow_batch_to_completion half_page_client example_constants [7] 20 600000
     \<lparr>clock = 0, sent = []\<rparr> =
   Some (Inr (listing_reply 250 (replicate 50 finished_workflow), replicate 250 finished_workflow),
         \<lparr>clock = 0,
          sent = [page_request_7 0, page_request_7 100, page_request_7 200, page_request_7 300,
                  page_request_7 400]\<rparr>)"
proof -
  let ?w0 = "\<lparr>clock = 0, sent = []\<rparr> :: world"
  let ?f = "fetch_workflow_pages half_page_client example_constants [7]"
  have "?f 0 [] ?w0 = ?f 100 (replicate 50 finished_workflow) (advance 0 (page_request_7 0) ?w0)"
    using half_page_step [of 0 0 ?w0] by simp
  also have "\<dots> = ?f 200 (replicate 100 finished_workflow)
      (advance 0 (page_request_7 100) (advance 0 (page_request_7 0) ?w0))"
    using half_page_step [of 1 100] by simp
  also have "\<dots> = ?f 300 (replicate 150 finished_workflow)
      (advance 0 (page_request_7 200) (advance 0 (page_request_7 100) (advance 0 (page_request_7 0) ?w0)))"
    using half_page_step [of 2 200] by simp
  also have "\<dots> = ?f 400 (replicate 200 finished_workflow)
      (advance 0 (page_request_7 300) (advance 0 (page_request_7 200)
        (advance 0 (page_request_7 100) (advance 0 (page_request_7 0) ?w0))))"
    using half_page_step [of 3 300] by simp
  also have "\<dots> = Some (Inr (listing_reply 250 (replicate 50 finished_workflow),
                              replicate 250 finished_workflow),
      advance 0 (page_request_7 400) (advance 0 (page_request_7 300) (advance 0 (page_request_7 200)
        (advance 0 (page_request_7 100) (advance 0 (page_request_7 0) ?w0)))))"
    by (rule half_page_last)
  finally have f: "?f 0 [] ?w0 =
      Some (Inr (listing_reply 250 (replicate 50 finished_workflow), replicate 250 finished_workflow),
        \<lparr>clock = 0,
          sent = [page_request_7 0, page_request_7 100, page_request_7 200, page_request_7 300,
                  page_request_7 400]\<rparr>)"
    by (simp add: advance_def)
  have c: "all_completed (WORKFLOW_IN_PROGRESS_STATUSES example_constants)
             (replicate 250 finished_workflow) = Inr True"
    by (rule all_completed_none_in_progress) (rule finished_none_in_progress)
  have "poll_workflow_batch_to_completion_loop half_page_client example_constants [7] 20 600000 0 ?w0 =
      Some (Inr (listing_reply 250 (replicate 50 finished_workflow), replicate 250 finished_workflow),
        \<lparr>clock = 0,
          sent = [page_request_7 0, page_request_7 100, page_request_7 200, page_request_7 300,
                  page_request_7 400]\<rparr>)"
    by (subst poll_workflow_batch_to_completion_loop.simps) (simp add: f c)
  then show ?thesis
    by (simp add: poll_workflow_batch_to_completion_def validate_list_not_empty_def
          validate_positive_int_def)
qed

text \<open>The theorem over two ticks of pages of 100, 100 and 50: the first tick is
  incomplete, and the second fetches offsets 0, 100 and 200 again.\<close>

theorem batch_pagination_three_pages_witness:
  "poll_workflow_batch_to_completion_loop two_tick_client example_constants [7] 20 600000 0
     \<lparr>clock = 0, sent = []\<rparr> =
   poll_workflow_batch_to_completion_loop two_tick_client example_constants [7] 20 600000 0
     \<lparr>clock = 20, sent = [page_request_7 0, page_request_7 100, page_request_7 200]\<rparr> \<and>
   fetch_workflow_pages two_tick_client example_constants [7] 0 []
     \<lparr>clock = 20, sent = [page_request_7 0, page_request_7 100, page_request_7 200]\<rparr> =
   Some (Inr (listing_reply 250 (two_tick_page 5),
              two_tick_page 3 @ two_tick_page 4 @ two_tick_page 5),
         \<lparr>clock = 20,
          sent = [page_request_7 0, page_request_7 100, page_request_7 200,
                  page_request_7 0, page_request_7 100, page_request_7 200]\<rparr>)"
proof -
  let ?w0 = "\<lparr>clock = 0, sent = []\<rparr> :: world"
  let ?w1 = "\<lparr>clock = 0, sent = [page_request_7 0, page_request_7 100, page_request_7 200]\<rparr>"
  let ?w2 = "\<lparr>clock = 20, sent = [page_request_7 0, page_request_7 100, page_request_7 200]\<rparr>"
  have b: "base_url two_tick_client = ''https://host''"
    by (simp add: two_tick_client_def)
  note pr = page_request_7_host [OF b]
  note first = batch_pagination_three_pages
      [where cl = two_tick_client and K = example_constants and ids = "[7]" and w = ?w0
         and interval = 20 and timeout = 600000 and start = 0]
  note second = batch_pagination_three_pages
      [where cl = two_tick_client and K = example_constants and ids = "[7]" and w = ?w2]
  have f1: "fetch_workflow_pages two_tick_client example_constants [7] 0 [] ?w0 =
      Some (Inr (listing_reply 250 (two_tick_page 2),
                 two_tick_page 0 @ two_tick_page 1 @ two_tick_page 2), ?w1)"
    using first [THEN conjunct1, rule_format,
                 of 0 "listing_reply 250 (two_tick_page 0)" "two_tick_page 0"
                    0 "listing_reply 250 (two_tick_page 1)" "two_tick_page 1"
                    0 "listing_reply 250 (two_tick_page 2)" "two_tick_page 2"]
    by (simp add: pr two_tick_client_page length_two_tick_page sent_advance advance_def)
  have t: "poll_workflow_batch_to_completion_loop two_tick_client example_constants [7] 20 600000 0 ?w0 =
      poll_workflow_batch_to_completion_loop two_tick_client example_constants [7] 20 600000 0
        (sleep 20 ?w1)"
    using first [THEN conjunct2, rule_format,
                 of "listing_reply 250 (two_tick_page 2)"
                    "two_tick_page 0 @ two_tick_page 1 @ two_tick_page 2" ?w1]
    by (simp add: f1 first_tick_incomplete)
  have f2: "fetch_workflow_pages two_tick_client example_constants [7] 0 [] ?w2 =
      Some (Inr (listing_reply 250 (two_tick_page 5),
                 two_tick_page 3 @ two_tick_page 4 @ two_tick_page 5),
            \<lparr>clock = 20,
             sent = [page_request_7 0, page_request_7 100, page_request_7 200,
                     page_request_7 0, page_request_7 100, page_request_7 200]\<rparr>)"
    using second [THEN conjunct1, rule_format,
                 of 0 "listing_reply 250 (two_tick_page 3)" "two_tick_page 3"
                    0 "listing_reply 250 (two_tick_page 4)" "two_tick_page 4"
                    0 "listing_reply 250 (two_tick_page 5)" "two_tick_page 5"]
    by (simp add: pr two_tick_client_page length_two_tick_page sent_advance advance_def)
  show ?thesis
    using t f2 by (simp add: sleep_def)
qed

text \<open>
  \<^bold>\<open>C5\<close> (lookup by name), as the code has it.  In \<^verbatim>\<open>submit_mri_import_job\<close> the
  portfolio lookup raises an IRPAPIError "not found" on no match and an IRPAPIError with
  the count and the request for a unique name on two or more, and takes the identifier of
  the match when there is exactly one; the EDM lookup raises an IRPAPIError "Expected 1 EDM
  ..., found n" on any number of matches but one, and takes the identifier of the one match.
  Neither picks the first of several.  The helper \<^verbatim>\<open>find_reference_data_by_name\<close>, on a
  list of dicts, raises an IRPReferenceDataError on an empty list; it raises one ("not
  found", with the names available) when no item has the name and each of the first five
  items has a string under the name field or no such field, so that the names can be
  joined for the message; and it returns the first item that has the name, whatever
  follows it.
\<close>

theorem lookup_by_name:
  "mri_lookup_portfolio portfolio_name [] =
     Inl (Error IRPAPIError [Lit ''Portfolio with name '', Lit portfolio_name, Lit '' not found'']) \<and>
   (\<forall>p. mri_lookup_portfolio portfolio_name [p] =
      (case subscript p ''portfolioId'' of
         Inl e \<Rightarrow>
           Inl (Error IRPAPIError
             [Lit (''Failed to extract portfolio ID for portfolio '' @ sq), Lit portfolio_name,
              Lit (sq @ '': ''), Exc e])
       | Inr portfolio_id \<Rightarrow> Inr portfolio_id)) \<and>
   (\<forall>ps. 2 \<le> length ps \<longrightarrow>
      mri_lookup_portfolio portfolio_name ps =
        Inl (Error IRPAPIError
          [Val (JNum (int (length ps))), Lit '' portfolios found with name '', Lit portfolio_name,
           Lit '', please use a unique name''])) \<and>
   (\<forall>es. length es \<noteq> 1 \<longrightarrow>
      mri_lookup_edm edm_name es =
        Inl (Error IRPAPIError
          [Lit ''Expected 1 EDM with name '', Lit edm_name, Lit '', found '',
           Val (JNum (int (length es)))])) \<and>
   (\<forall>e. mri_lookup_edm edm_name [e] =
      (case subscript e ''exposureId'' of
         Inl x \<Rightarrow>
           Inl (Error IRPAPIError
             [Lit (''Failed to extract exposure ID for EDM '' @ sq), Lit edm_name,
              Lit (sq @ '': ''), Exc x])
       | Inr exposure_id \<Rightarrow> Inr exposure_id)) \<and>
   find_reference_data_by_name [] target_name name_field data_type =
     Inl (Error IRPReferenceDataError [Lit ''No '', Lit data_type, Lit '' available to search'']) \<and>
   (\<forall>ds. ds \<noteq> [] \<and> list_all (\<lambda>d. \<not> named name_field target_name d) ds \<and>
         list_all (printable_name name_field) (take 5 ds) \<longrightarrow>
      (\<exists>names_str.
         find_reference_data_by_name (map JObj ds) target_name name_field data_type =
           Inl (Error IRPReferenceDataError
             [Lit data_type, Lit ('' '' @ sq), Lit target_name,
              Lit (sq @ '' not found. Available: ''), Lit names_str]))) \<and>
   (\<forall>pre d post.
      list_all (\<lambda>d. \<not> named name_field target_name d) pre \<and> named name_field target_name d \<longrightarrow>
      find_reference_data_by_name (map JObj (pre @ d # post)) target_name name_field data_type =
        Inr (JObj d))"
proof (intro conjI allI impI)
  show "mri_lookup_portfolio portfolio_name [] =
     Inl (Error IRPAPIError [Lit ''Portfolio with name '', Lit portfolio_name, Lit '' not found''])"
    by (simp add: mri_lookup_portfolio_def)
next
  fix p
  show "mri_lookup_portfolio portfolio_name [p] =
      (case subscript p ''portfolioId'' of
         Inl e \<Rightarrow>
           Inl (Error IRPAPIError
             [Lit (''Failed to extract portfolio ID for portfolio '' @ sq), Lit portfolio_name,
              Lit (sq @ '': ''), Exc e])
       | Inr portfolio_id \<Rightarrow> Inr portfolio_id)"
    by (simp add: mri_lookup_portfolio_def first_of_def)
next
  fix ps :: "json list"
  assume "2 \<le> length ps"
  then show "mri_lookup_portfolio portfolio_name ps =
        Inl (Error IRPAPIError
          [Val (JNum (int (length ps))), Lit '' portfolios found with name '', Lit portfolio_name,
           Lit '', please use a unique name''])"
    by (auto simp add: mri_lookup_portfolio_def)
next
  fix es :: "json list"
  assume "length es \<noteq> 1"
  then show "mri_lookup_edm edm_name es =
        Inl (Error IRPAPIError
          [Lit ''Expected 1 EDM with name '', Lit edm_name, Lit '', found '',
           Val (JNum (int (length es)))])"
    by (simp add: mri_lookup_edm_def)
next
  fix e
  show "mri_lookup_edm edm_name [e] =
      (case subscript e ''exposureId'' of
         Inl x \<Rightarrow>
           Inl (Error IRPAPIError
             [Lit (''Failed to extract exposure ID for EDM '' @ sq), Lit edm_name,
              Lit (sq @ '': ''), Exc x])
       | Inr exposure_id \<Rightarrow> Inr exposure_id)"
    by (simp add: mri_lookup_edm_def first_of_def)
next
  show "find_reference_data_by_name [] target_name name_field data_type =
     Inl (Error IRPReferenceDataError [Lit ''No '', Lit data_type, Lit '' available to search''])"
    by (simp add: find_reference_data_by_name_def)
next
  fix ds
  assume h: "ds \<noteq> [] \<and> list_all (\<lambda>d. \<not> named name_field target_name d) ds \<and>
         list_all (printable_name name_field) (take 5 ds)"
  then have fm: "first_match name_field target_name (map JObj ds) = Inr None"
    by (simp add: first_match_none)
  from h obtain ns where ns: "names_of name_field (map JObj (take 5 ds)) = Inr (map JStr ns)"
    using names_of_printable by blast
  have "find_reference_data_by_name (map JObj ds) target_name name_field data_type =
           Inl (Error IRPReferenceDataError
             [Lit data_type, Lit ('' '' @ sq), Lit target_name,
              Lit (sq @ '' not found. Available: ''),
              Lit (join '', '' ns @
                   (if length ds > 5 then '', ... ('' @ str_nat (length ds - 5) @ '' more)''
                    else []))])"
    using h ns
    by (simp add: find_reference_data_by_name_def fm take_map [symmetric] strings_of_strings
          del: str_nat.simps)
  then show "\<exists>names_str.
         find_reference_data_by_name (map JObj ds) target_name name_field data_type =
           Inl (Error IRPReferenceDataError
             [Lit data_type, Lit ('' '' @ sq), Lit target_name,
              Lit (sq @ '' not found. Available: ''), Lit names_str])"
    by blast
next
  fix pre d post
  assume "list_all (\<lambda>d. \<not> named name_field target_name d) pre \<and> named name_field target_name d"
  then have "first_match name_field target_name (map JObj (pre @ d # post)) = Inr (Some (JObj d))"
    using first_match_first [of name_field target_name pre d post] by blast
  then show "find_reference_data_by_name (map JObj (pre @ d # post)) target_name name_field data_type =
        Inr (JObj d)"
    by (simp add: find_reference_data_by_name_def del: map_append)
qed

text \<open>The claim as stated fails: \<^verbatim>\<open>find_reference_data_by_name\<close> returns the first of two
  items with the same name, and the lookups of \<^verbatim>\<open>submit_mri_import_job\<close> raise IRPAPIError,
  the EDM lookup with its own wording for no match.\<close>

theorem lookup_by_name_counterexample:
  "find_reference_data_by_name [JObj portfolio_A1, JObj portfolio_A2] ''A'' ''name'' ''portfolio'' =
     Inr (JObj portfolio_A1) \<and>
   mri_lookup_portfolio ''A'' [] =
     Inl (Error IRPAPIError [Lit ''Portfolio with name '', Lit ''A'', Lit '' not found'']) \<and>
   mri_lookup_edm ''E'' [] =
     Inl (Error IRPAPIError [Lit ''Expected 1 EDM with name '', Lit ''E'', Lit '', found '', Val (JNum 0)])"
  by (simp add: find_reference_data_by_name_def get_default_def portfolio_A1_def portfolio_A2_def
        mri_lookup_portfolio_def mri_lookup_edm_def)

text \<open>The theorem at these records.\<close>

theorem lookup_by_name_witness:
  "mri_lookup_portfolio ''A'' [JObj portfolio_A1, JObj portfolio_A2] =
     Inl (Error IRPAPIError
       [Val (JNum 2), Lit '' portfolios found with name '', Lit ''A'',
        Lit '', please use a unique name'']) \<and>
   mri_lookup_portfolio ''A'' [JObj portfolio_A1] = Inr (JNum 1) \<and>
   mri_lookup_edm ''E'' [JObj portfolio_A1, JObj portfolio_A2] =
     Inl (Error IRPAPIError
       [Lit ''Expected 1 EDM with name '', Lit ''E'', Lit '', found '', Val (JNum 2)]) \<and>
   find_reference_data_by_name [JObj portfolio_B, JObj portfolio_A2, JObj portfolio_A1] ''A'' ''name''
     ''portfolio'' = Inr (JObj portfolio_A2) \<and>
   (\<exists>names_str.
      find_reference_data_by_name [JObj portfolio_B] ''A'' ''name'' ''portfolio'' =
        Inl (Error IRPReferenceDataError
          [Lit ''portfolio'', Lit ('' '' @ sq), Lit ''A'', Lit (sq @ '' not found. Available: ''),
           Lit names_str]))"
proof -
  note th = lookup_by_name [where portfolio_name = "''A''" and edm_name = "''E''"
      and target_name = "''A''" and name_field = "''name''" and data_type = "''portfolio''"]
  have a: "mri_lookup_portfolio ''A'' [JObj portfolio_A1, JObj portfolio_A2] =
     Inl (Error IRPAPIError
       [Val (JNum 2), Lit '' portfolios found with name '', Lit ''A'',
        Lit '', please use a unique name''])"
    using th [THEN conjunct2, THEN conjunct2, THEN conjunct1, rule_format,
              of "[JObj portfolio_A1, JObj portfolio_A2]"]
    by simp
  have b: "mri_lookup_portfolio ''A'' [JObj portfolio_A1] = Inr (JNum 1)"
    using th [THEN conjunct2, THEN conjunct1, rule_format, of "JObj portfolio_A1"]
    by (simp add: subscript_def portfolio_A1_def)
  have c: "mri_lookup_edm ''E'' [JObj portfolio_A1, JObj portfolio_A2] =
     Inl (Error IRPAPIError
       [Lit ''Expected 1 EDM with name '', Lit ''E'', Lit '', found '', Val (JNum 2)])"
    using th [THEN conjunct2, THEN conjunct2, THEN conjunct2, THEN conjunct1, rule_format,
              of "[JObj portfolio_A1, JObj portfolio_A2]"]
    by simp
  have d: "find_reference_data_by_name [JObj portfolio_B, JObj portfolio_A2, JObj portfolio_A1]
             ''A'' ''name'' ''portfolio'' = Inr (JObj portfolio_A2)"
    using th [THEN conjunct2, THEN conjunct2, THEN conjunct2, THEN conjunct2, THEN conjunct2,
              THEN conjunct2, THEN conjunct2, rule_format,
              of "[portfolio_B]" portfolio_A2 "[portfolio_A1]"]
    by (simp add: named_def portfolio_B_def portfolio_A2_def)
  have e: "\<exists>names_str.
      find_reference_data_by_name [JObj portfolio_B] ''A'' ''name'' ''portfolio'' =
        Inl (Error IRPReferenceDataError
          [Lit ''portfolio'', Lit ('' '' @ sq), Lit ''A'', Lit (sq @ '' not found. Available: ''),
           Lit names_str])"
    using th [THEN conjunct2, THEN conjunct2, THEN conjunct2, THEN conjunct2, THEN conjunct2,
              THEN conjunct2, THEN conjunct1, rule_format, of "[portfolio_B]"]
    by (simp add: named_def printable_name_def portfolio_B_def)
  show ?thesis
    using a b c d e by blast
qed

text \<open>
  \<^bold>\<open>C6\<close> (decoding the credentials).  When a required field is absent from the payload,
  \<^verbatim>\<open>decode_mri_credentials\<close> raises an IRPAPIError whose message lists exactly the absent
  fields, and the result is the same for every decoder: no field is decoded.  A result that
  is not an error has all five keys.  When all five fields are present and every one
  decodes, the result holds the five decoded texts, each from its own field; when any one
  does not decode, the result is the IRPAPIError of a field and no record.
\<close>

theorem decode_mri_credentials_atomic:
  "(filter (\<lambda>f. map_of rj f = None) required_fields \<noteq> [] \<longrightarrow>
      decode_mri_credentials dec rj =
        Inl (Error IRPAPIError
          [Lit ''MRI credentials response missing fields: '',
           Lit (join '', '' (filter (\<lambda>f. map_of rj f = None) required_fields))]) \<and>
      decode_mri_credentials dec rj = decode_mri_credentials dec' rj) \<and>
   (\<forall>creds. decode_mri_credentials dec rj = Inr creds \<longrightarrow>
      map fst creds =
        [''aws_access_key_id'', ''aws_secret_access_key'', ''aws_session_token'', ''s3_path'',
         ''s3_region'']) \<and>
   (\<forall>va vb vc vd ve.
      map_of rj ''accessKeyId'' = Some va \<and> map_of rj ''secretAccessKey'' = Some vb \<and>
      map_of rj ''sessionToken'' = Some vc \<and> map_of rj ''s3Path'' = Some vd \<and>
      map_of rj ''s3Region'' = Some ve \<longrightarrow>
      (\<forall>a b c d e.
         dec va = Inr a \<and> dec vb = Inr b \<and> dec vc = Inr c \<and> dec vd = Inr d \<and> dec ve = Inr e \<longrightarrow>
         decode_mri_credentials dec rj =
           Inr [(''aws_access_key_id'', a), (''aws_secret_access_key'', b),
                (''aws_session_token'', c), (''s3_path'', d), (''s3_region'', e)]) \<and>
      (isl (dec va) \<or> isl (dec vb) \<or> isl (dec vc) \<or> isl (dec vd) \<or> isl (dec ve) \<longrightarrow>
         (\<exists>f x. f \<in> set required_fields \<and>
                decode_mri_credentials dec rj =
                  Inl (Error IRPAPIError
                    [Lit (''Failed to decode base64 field '' @ sq), Lit f, Lit (sq @ '': ''),
                     Exc x]))))"
proof (intro conjI allI impI)
  assume m: "filter (\<lambda>f. map_of rj f = None) required_fields \<noteq> []"
  then show "decode_mri_credentials dec rj =
        Inl (Error IRPAPIError
          [Lit ''MRI credentials response missing fields: '',
           Lit (join '', '' (filter (\<lambda>f. map_of rj f = None) required_fields))])"
    by (simp add: decode_mri_credentials_def Let_def)
  from m show "decode_mri_credentials dec rj = decode_mri_credentials dec' rj"
    by (simp add: decode_mri_credentials_def Let_def)
next
  fix creds
  assume r: "decode_mri_credentials dec rj = Inr creds"
  have "filter (\<lambda>f. map_of rj f = None) required_fields = []"
    using r by (auto simp add: decode_mri_credentials_def Let_def split: if_splits)
  then obtain va vb vc vd ve where
    p: "map_of rj ''accessKeyId'' = Some va" "map_of rj ''secretAccessKey'' = Some vb"
       "map_of rj ''sessionToken'' = Some vc" "map_of rj ''s3Path'' = Some vd"
       "map_of rj ''s3Region'' = Some ve"
    unfolding missing_none_iff by blast
  show "map fst creds =
        [''aws_access_key_id'', ''aws_secret_access_key'', ''aws_session_token'', ''s3_path'',
         ''s3_region'']"
    using r unfolding decode_mri_credentials_present [OF p]
    by (auto split: sum.splits)
next
  fix va vb vc vd ve a b c d e
  assume p: "map_of rj ''accessKeyId'' = Some va \<and> map_of rj ''secretAccessKey'' = Some vb \<and>
      map_of rj ''sessionToken'' = Some vc \<and> map_of rj ''s3Path'' = Some vd \<and>
      map_of rj ''s3Region'' = Some ve"
    and ok: "dec va = Inr a \<and> dec vb = Inr b \<and> dec vc = Inr c \<and> dec vd = Inr d \<and> dec ve = Inr e"
  show "decode_mri_credentials dec rj =
           Inr [(''aws_access_key_id'', a), (''aws_secret_access_key'', b),
                (''aws_session_token'', c), (''s3_path'', d), (''s3_region'', e)]"
    using p ok decode_mri_credentials_present [of rj va vb vc vd ve dec]
    by (simp add: decode_base64_field_cases)
next
  fix va vb vc vd ve
  assume p: "map_of rj ''accessKeyId'' = Some va \<and> map_of rj ''secretAccessKey'' = Some vb \<and>
      map_of rj ''sessionToken'' = Some vc \<and> map_of rj ''s3Path'' = Some vd \<and>
      map_of rj ''s3Region'' = Some ve"
    and bad: "isl (dec va) \<or> isl (dec vb) \<or> isl (dec vc) \<or> isl (dec vd) \<or> isl (dec ve)"
  have eq: "decode_mri_credentials dec rj =
     (case decode_base64_field dec va ''accessKeyId'' of Inl e \<Rightarrow> Inl e | Inr a \<Rightarrow>
     (case decode_base64_field dec vb ''secretAccessKey'' of Inl e \<Rightarrow> Inl e | Inr b \<Rightarrow>
     (case decode_base64_field dec vc ''sessionToken'' of Inl e \<Rightarrow> Inl e | Inr c \<Rightarrow>
     (case decode_base64_field dec vd ''s3Path'' of Inl e \<Rightarrow> Inl e | Inr d \<Rightarrow>
     (case decode_base64_field dec ve ''s3Region'' of Inl e \<Rightarrow> Inl e | Inr e \<Rightarrow>
        Inr [(''aws_access_key_id'', a), (''aws_secret_access_key'', b),
             (''aws_session_token'', c), (''s3_path'', d), (''s3_region'', e)])))))"
    using p by (intro decode_mri_credentials_present) simp_all
  show "\<exists>f x. f \<in> set required_fields \<and>
                decode_mri_credentials dec rj =
                  Inl (Error IRPAPIError
                    [Lit (''Failed to decode base64 field '' @ sq), Lit f, Lit (sq @ '': ''),
                     Exc x])"
    using bad unfolding eq decode_base64_field_cases required_fields_def
    by (auto split: sum.splits simp: isl_def)
qed

text \<open>The theorem at a payload without \<^verbatim>\<open>secretAccessKey\<close> and \<^verbatim>\<open>s3Region\<close>, and at a
  payload with all five fields.\<close>

theorem decode_mri_credentials_atomic_witness:
  "decode_mri_credentials example_decoder partial_payload =
     Inl (Error IRPAPIError
       [Lit ''MRI credentials response missing fields: '', Lit ''secretAccessKey, s3Region'']) \<and>
   decode_mri_credentials example_decoder full_payload =
     Inr [(''aws_access_key_id'', ''AKIAEXAMPLE''), (''aws_secret_access_key'', ''secret''),
          (''aws_session_token'', ''token''), (''s3_path'', ''bucket/prefix''),
          (''s3_region'', ''us-east-1'')]"
proof
  show "decode_mri_credentials example_decoder partial_payload =
     Inl (Error IRPAPIError
       [Lit ''MRI credentials response missing fields: '', Lit ''secretAccessKey, s3Region''])"
    using decode_mri_credentials_atomic [of partial_payload example_decoder example_decoder]
    by (simp add: partial_payload_missing)
next
  show "decode_mri_credentials example_decoder full_payload =
     Inr [(''aws_access_key_id'', ''AKIAEXAMPLE''), (''aws_secret_access_key'', ''secret''),
          (''aws_session_token'', ''token''), (''s3_path'', ''bucket/prefix''),
          (''s3_region'', ''us-east-1'')]"
    using decode_mri_credentials_atomic [of full_payload example_decoder example_decoder,
            THEN conjunct2, THEN conjunct2, rule_format, THEN conjunct1, rule_format,
            of "JStr ''QUtJQUVYQU1QTEU=''" "JStr ''c2VjcmV0''" "JStr ''dG9rZW4=''"
               "JStr ''YnVja2V0L3ByZWZpeA==''" "JStr ''dXMtZWFzdC0x''"
               "''AKIAEXAMPLE''" "''secret''" "''token''" "''bucket/prefix''" "''us-east-1''"]
    by (simp add: full_payload_fields example_decoder_values)
qed

text \<open>
  \<^bold>\<open>C7\<close> (synchronising the mapping with the headers): the code at a mapping file that
  has no \<^verbatim>\<open>accountItems\<close> member, with the account column ACCNTNUM and the location column
  ZIP.  The identity entry for ACCNTNUM goes to the fresh list that
  \<^verbatim>\<open>mapping.get('accountItems', [])\<close> gives, which the mapping does not hold: the file is
  written, and what is written is the mapping as it was, without the entry.  With an empty
  \<^verbatim>\<open>accountItems\<close> list in the file the same call writes the entry.
\<close>

theorem sync_mapping_absent_list_dropped:
  "sync_mapping_with_csv_headers
     (JObj [(''locationItems'',
               JArr [JObj [(''source'', JStr ''ZIP''), (''destination'', JStr ''POSTALCODE'')]])])
     [''ACCNTNUM''] [''ZIP''] =
     (Inr True,
      JObj [(''locationItems'',
               JArr [JObj [(''source'', JStr ''ZIP''), (''destination'', JStr ''POSTALCODE'')]])]) \<and>
   sync_mapping_with_csv_headers
     (JObj [(''accountItems'', JArr []),
            (''locationItems'',
               JArr [JObj [(''source'', JStr ''ZIP''), (''destination'', JStr ''POSTALCODE'')]])])
     [''ACCNTNUM''] [''ZIP''] =
     (Inr True,
      JObj [(''accountItems'',
               JArr [JObj [(''source'', JStr ''ACCNTNUM''), (''destination'', JStr ''ACCNTNUM'')]]),
            (''locationItems'',
               JArr [JObj [(''source'', JStr ''ZIP''), (''destination'', JStr ''POSTALCODE'')]])])"
  by (simp add: sync_mapping_with_csv_headers_def add_missing_sources_def py_iter_def set_key_def
        source_upper_def subscript_def upper_def upper_char_def small_letters_def
        capital_letters_def)

subsection \<open>Submission, then polling\<close>



subsection \<open>The body of the creation request\<close>

text \<open>
  \<^bold>\<open>C9\<close> (the portfolio number is cut to 20 characters).  Let the three names pass the
  validation of \<^verbatim>\<open>create_portfolio\<close>, which asks only that they are not blank and puts no
  bound on a length, let the search for the EDM give one EDM with an exposure identifier,
  and let the search for the portfolio name give nothing.  Then the call sends the creation
  request, a POST to the creation endpoint of that exposure, and its body holds the
  portfolio name and the description as they were given and, as portfolio number, the first
  20 characters of the argument.  And whenever \<^verbatim>\<open>create_portfolio\<close> returns, the body it
  returns is this one, and it is the body of the last request sent, a POST.
\<close>

theorem create_portfolio_truncates_number:
  "(\<forall>edms w1 edm exposure_id portfolios w2.
      \<not> list_all is_space edm_name \<and> \<not> list_all is_space portfolio_name \<and>
      \<not> list_all is_space portfolio_number \<and>
      search_edms (''exposureName='' @ dq @ edm_name @ dq) w = (Inr edms, w1) \<and>
      py_len edms = Inr 1 \<and> py_first edms = Inr edm \<and>
      subscript edm ''exposureId'' = Inr exposure_id \<and>
      search_portfolios cl K exposure_id (''portfolioName='' @ dq @ portfolio_name @ dq) w1 =
        (Inr portfolios, w2) \<and>
      py_len portfolios = Inr 0 \<longrightarrow>
      sent (snd (create_portfolio cl K search_edms edm_name portfolio_name portfolio_number
                   description w)) =
        sent w2 @
        [\<lparr>req_method = ''POST'',
          req_url = base_url cl @ ''/'' @ lstrip_slash (CREATE_PORTFOLIO K exposure_id),
          req_params = [],
          req_json = Some (JObj [(''portfolioName'', JStr portfolio_name),
                                 (''portfolioNumber'', JStr (take 20 portfolio_number)),
                                 (''description'', JStr description)])\<rparr>]) \<and>
   (\<forall>pid data w'.
      create_portfolio cl K search_edms edm_name portfolio_name portfolio_number description w =
        (Inr (pid, data), w') \<longrightarrow>
      data = JObj [(''portfolioName'', JStr portfolio_name),
                   (''portfolioNumber'', JStr (take 20 portfolio_number)),
                   (''description'', JStr description)] \<and>
      sent w' \<noteq> [] \<and> req_method (last (sent w')) = ''POST'' \<and>
      req_json (last (sent w')) = Some data)"
proof (rule conjI; intro allI impI)
  fix edms w1 edm exposure_id portfolios w2
  assume h: "\<not> list_all is_space edm_name \<and> \<not> list_all is_space portfolio_name \<and>
      \<not> list_all is_space portfolio_number \<and>
      search_edms (''exposureName='' @ dq @ edm_name @ dq) w = (Inr edms, w1) \<and>
      py_len edms = Inr 1 \<and> py_first edms = Inr edm \<and>
      subscript edm ''exposureId'' = Inr exposure_id \<and>
      search_portfolios cl K exposure_id (''portfolioName='' @ dq @ portfolio_name @ dq) w1 =
        (Inr portfolios, w2) \<and>
      py_len portfolios = Inr 0"
  then have "create_portfolio cl K search_edms edm_name portfolio_name portfolio_number description w =
     create_portfolio_submit cl K portfolio_name exposure_id
       (portfolio_data portfolio_name portfolio_number description) w2"
    by (intro create_portfolio_reaches_submit [where edms = edms and ?w1.0 = w1 and edm = edm
          and portfolios = portfolios]) simp_all
  then show "sent (snd (create_portfolio cl K search_edms edm_name portfolio_name portfolio_number
                   description w)) =
        sent w2 @
        [\<lparr>req_method = ''POST'',
          req_url = base_url cl @ ''/'' @ lstrip_slash (CREATE_PORTFOLIO K exposure_id),
          req_params = [],
          req_json = Some (JObj [(''portfolioName'', JStr portfolio_name),
                                 (''portfolioNumber'', JStr (take 20 portfolio_number)),
                                 (''description'', JStr description)])\<rparr>]"
    by (simp add: create_portfolio_submit_sent creation_request_def portfolio_data_def)
next
  fix pid data w'
  assume r: "create_portfolio cl K search_edms edm_name portfolio_name portfolio_number description w =
        (Inr (pid, data), w')"
  then obtain exposure_id w2 where s: "create_portfolio_submit cl K portfolio_name exposure_id
       (portfolio_data portfolio_name portfolio_number description) w2 = (Inr (pid, data), w')"
    using create_portfolio_returns_via_submit by blast
  have d: "data = portfolio_data portfolio_name portfolio_number description"
    using s by (rule create_portfolio_submit_data)
  have "sent w' = sent w2 @ [creation_request cl K exposure_id data]"
    using create_portfolio_submit_sent [of cl K portfolio_name exposure_id
        "portfolio_data portfolio_name portfolio_number description" w2] s d
    by simp
  with d show "data = JObj [(''portfolioName'', JStr portfolio_name),
                   (''portfolioNumber'', JStr (take 20 portfolio_number)),
                   (''description'', JStr description)] \<and>
      sent w' \<noteq> [] \<and> req_method (last (sent w')) = ''POST'' \<and>
      req_json (last (sent w')) = Some data"
    by (simp add: portfolio_data_def creation_request_def)
qed

text \<open>The theorem at a portfolio number of 27 characters.\<close>

theorem create_portfolio_truncates_number_witness:
  "sent (snd (create_portfolio portfolio_client example_constants one_edm ''EDM1'' ''Book''
                ''PORTFOLIO-NUMBER-0123456789'' ''A book'' \<lparr>clock = 0, sent = []\<rparr>)) =
     [search_request,
      \<lparr>req_method = ''POST'', req_url = ''https://host/portfolios'', req_params = [],
       req_json = Some (JObj [(''portfolioName'', JStr ''Book''),
                              (''portfolioNumber'', JStr ''PORTFOLIO-NUMBER-012''),
                              (''description'', JStr ''A book'')])\<rparr>] \<and>
   (\<exists>w'. create_portfolio portfolio_client example_constants one_edm ''EDM1'' ''Book''
            ''PORTFOLIO-NUMBER-0123456789'' ''A book'' \<lparr>clock = 0, sent = []\<rparr> =
          (Inr (42, JObj [(''portfolioName'', JStr ''Book''),
                          (''portfolioNumber'', JStr ''PORTFOLIO-NUMBER-012''),
                          (''description'', JStr ''A book'')]), w'))"
proof
  let ?w0 = "\<lparr>clock = 0, sent = []\<rparr>"
  let ?edm = "JObj [(''exposureName'', JStr ''EDM1''), (''exposureId'', JNum 7)]"
  have nb: "\<not> list_all is_space ''EDM1''" "\<not> list_all is_space ''Book''"
    "\<not> list_all is_space ''PORTFOLIO-NUMBER-0123456789''"
    by (simp_all add: is_space_def)
  have se: "one_edm (''exposureName='' @ dq @ ''EDM1'' @ dq) ?w0 = (Inr (JArr [?edm]), ?w0)"
    by (simp add: one_edm_def)
  have l1: "py_len (JArr [?edm]) = Inr 1" by (simp add: py_len_def)
  have f1: "py_first (JArr [?edm]) = Inr ?edm" by (simp add: py_first_def)
  have su: "subscript ?edm ''exposureId'' = Inr (JNum 7)" by (simp add: subscript_def)
  have l0: "py_len (JArr []) = Inr 0" by (simp add: py_len_def)
  note th = create_portfolio_truncates_number [where cl = portfolio_client and K = example_constants
      and search_edms = one_edm and edm_name = "''EDM1''" and portfolio_name = "''Book''"
      and portfolio_number = "''PORTFOLIO-NUMBER-0123456789''" and description = "''A book''"
      and w = ?w0, THEN conjunct1, rule_format,
      of "JArr [?edm]" ?w0 ?edm "JNum 7" "JArr []" "\<lparr>clock = 0, sent = [search_request]\<rparr>"]
  have "sent (snd (create_portfolio portfolio_client example_constants one_edm ''EDM1'' ''Book''
                ''PORTFOLIO-NUMBER-0123456789'' ''A book'' ?w0)) =
     sent \<lparr>clock = 0, sent = [search_request]\<rparr> @
       [\<lparr>req_method = ''POST'',
         req_url = base_url portfolio_client @ ''/'' @
                   lstrip_slash (CREATE_PORTFOLIO example_constants (JNum 7)),
         req_params = [],
         req_json = Some (JObj [(''portfolioName'', JStr ''Book''),
                                (''portfolioNumber'', JStr (take 20 ''PORTFOLIO-NUMBER-0123456789'')),
                                (''description'', JStr ''A book'')])\<rparr>]"
    by (rule th) (intro conjI nb se l1 f1 su l0 search_portfolios_example)
  then show "sent (snd (create_portfolio portfolio_client example_constants one_edm ''EDM1'' ''Book''
                ''PORTFOLIO-NUMBER-0123456789'' ''A book'' ?w0)) =
     [search_request,
      \<lparr>req_method = ''POST'', req_url = ''https://host/portfolios'', req_params = [],
       req_json = Some (JObj [(''portfolioName'', JStr ''Book''),
                              (''portfolioNumber'', JStr ''PORTFOLIO-NUMBER-012''),
                              (''description'', JStr ''A book'')])\<rparr>]"
    by (simp add: portfolio_client_def example_constants_def lstrip_slash_def)
next
  let ?w0 = "\<lparr>clock = 0, sent = []\<rparr>"
  let ?edm = "JObj [(''exposureName'', JStr ''EDM1''), (''exposureId'', JNum 7)]"
  have nb: "\<not> list_all is_space ''EDM1''" "\<not> list_all is_space ''Book''"
    "\<not> list_all is_space ''PORTFOLIO-NUMBER-0123456789''"
    by (simp_all add: is_space_def)
  have se: "one_edm (''exposureName='' @ dq @ ''EDM1'' @ dq) ?w0 = (Inr (JArr [?edm]), ?w0)"
    by (simp add: one_edm_def)
  have l1: "py_len (JArr [?edm]) = Inr 1" by (simp add: py_len_def)
  have f1: "py_first (JArr [?edm]) = Inr ?edm" by (simp add: py_first_def)
  have su: "subscript ?edm ''exposureId'' = Inr (JNum 7)" by (simp add: subscript_def)
  have l0: "py_len (JArr []) = Inr 0" by (simp add: py_len_def)
  have "create_portfolio portfolio_client example_constants one_edm ''EDM1'' ''Book''
            ''PORTFOLIO-NUMBER-0123456789'' ''A book'' ?w0 =
        create_portfolio_submit portfolio_client example_constants ''Book'' (JNum 7)
          (portfolio_data ''Book'' ''PORTFOLIO-NUMBER-0123456789'' ''A book'')
          \<lparr>clock = 0, sent = [search_request]\<rparr>"
    by (rule create_portfolio_reaches_submit [where search_edms = one_edm, OF nb se l1 f1 su
          search_portfolios_example l0])
  then obtain data w' where
    r: "create_portfolio portfolio_client example_constants one_edm ''EDM1'' ''Book''
            ''PORTFOLIO-NUMBER-0123456789'' ''A book'' ?w0 = (Inr (42, data), w')"
    by (simp add: create_portfolio_submit_example)
  from create_portfolio_truncates_number [THEN conjunct2, rule_format, OF r]
  have "data = JObj [(''portfolioName'', JStr ''Book''),
                     (''portfolioNumber'', JStr ''PORTFOLIO-NUMBER-012''),
                     (''description'', JStr ''A book'')]"
    by simp
  with r show "\<exists>w'. create_portfolio portfolio_client example_constants one_edm ''EDM1'' ''Book''
            ''PORTFOLIO-NUMBER-0123456789'' ''A book'' ?w0 =
          (Inr (42, JObj [(''portfolioName'', JStr ''Book''),
                          (''portfolioNumber'', JStr ''PORTFOLIO-NUMBER-012''),
                          (''description'', JStr ''A book'')]), w')"
    by blast
qed

text \<open>
  \<^bold>\<open>C10\<close> (one pass does not see its own additions).  The headers Zip and ZIP, neither
  of them a source yet, add the same identity entry twice in one pass.  In general, on a
  list of entries with sources, a pass appends the identity entry of every header that no
  source of the list before the pass matches when case is ignored, one entry per such
  header in the order of the headers, and reports whether there was one; a second pass
  with the same headers over the result changes nothing and reports no change.  The
  headers and the sources are texts whose capitals the strings of the model hold
  (\<open>upper_in_range\<close>).
\<close>

theorem add_missing_sources_one_pass:
  "add_missing_sources [''Zip'', ''ZIP''] (JArr []) =
     Inr (JArr [JObj [(''source'', JStr ''ZIP''), (''destination'', JStr ''ZIP'')],
                JObj [(''source'', JStr ''ZIP''), (''destination'', JStr ''ZIP'')]], True) \<and>
   (\<forall>headers items sources.
      map source_of items = map Some sources \<and>
      list_all upper_in_range sources \<and> list_all upper_in_range headers \<longrightarrow>
      add_missing_sources headers (JArr items) =
        Inr (JArr (items @ map identity_entry (missing_headers sources headers)),
             missing_headers sources headers \<noteq> []) \<and>
      add_missing_sources headers
        (JArr (items @ map identity_entry (missing_headers sources headers))) =
        Inr (JArr (items @ map identity_entry (missing_headers sources headers)), False))"
proof (intro conjI allI impI)
  show "add_missing_sources [''Zip'', ''ZIP''] (JArr []) =
     Inr (JArr [JObj [(''source'', JStr ''ZIP''), (''destination'', JStr ''ZIP'')],
                JObj [(''source'', JStr ''ZIP''), (''destination'', JStr ''ZIP'')]], True)"
    by (simp add: add_missing_sources_def py_iter_def upper_def upper_char_def small_letters_def capital_letters_def)
next
  fix headers items sources
  assume "map source_of items = map Some sources \<and>
      list_all upper_in_range sources \<and> list_all upper_in_range headers"
  then have "map source_of items = map Some sources" by simp
  then show "add_missing_sources headers (JArr items) =
        Inr (JArr (items @ map identity_entry (missing_headers sources headers)),
             missing_headers sources headers \<noteq> [])"
    by (rule add_missing_sources_list)
next
  fix headers items sources
  assume "map source_of items = map Some sources \<and>
      list_all upper_in_range sources \<and> list_all upper_in_range headers"
  then have s: "map source_of items = map Some sources" by simp
  show "add_missing_sources headers
        (JArr (items @ map identity_entry (missing_headers sources headers))) =
        Inr (JArr (items @ map identity_entry (missing_headers sources headers)), False)"
  proof -
    have s': "map source_of (items @ map identity_entry (missing_headers sources headers)) =
              map Some (sources @ map upper (missing_headers sources headers))"
      by (rule sources_after [OF s])
    show ?thesis
      using add_missing_sources_list [OF s', of headers]
      by (simp add: missing_headers_after)
  qed
qed

text \<open>The theorem at a list that has City as a source and the headers Zip, city, ZIP.\<close>

theorem add_missing_sources_one_pass_witness:
  "add_missing_sources [''Zip'', ''city'', ''ZIP'']
     (JArr [JObj [(''source'', JStr ''City''), (''destination'', JStr ''CITY'')]]) =
     Inr (JArr [JObj [(''source'', JStr ''City''), (''destination'', JStr ''CITY'')],
                JObj [(''source'', JStr ''ZIP''), (''destination'', JStr ''ZIP'')],
                JObj [(''source'', JStr ''ZIP''), (''destination'', JStr ''ZIP'')]], True) \<and>
   add_missing_sources [''Zip'', ''city'', ''ZIP'']
     (JArr [JObj [(''source'', JStr ''City''), (''destination'', JStr ''CITY'')],
            JObj [(''source'', JStr ''ZIP''), (''destination'', JStr ''ZIP'')],
            JObj [(''source'', JStr ''ZIP''), (''destination'', JStr ''ZIP'')]]) =
     Inr (JArr [JObj [(''source'', JStr ''City''), (''destination'', JStr ''CITY'')],
                JObj [(''source'', JStr ''ZIP''), (''destination'', JStr ''ZIP'')],
                JObj [(''source'', JStr ''ZIP''), (''destination'', JStr ''ZIP'')]], False)"
proof -
  let ?items = "[JObj [(''source'', JStr ''City''), (''destination'', JStr ''CITY'')]]"
  have s: "map source_of ?items = map Some [''City''] \<and>
           list_all upper_in_range [''City''] \<and> list_all upper_in_range [''Zip'', ''city'', ''ZIP'']"
    by (simp add: source_of_def subscript_def upper_in_range_def)
  have m: "missing_headers [''City''] [''Zip'', ''city'', ''ZIP''] = [''Zip'', ''ZIP'']"
    by (simp add: missing_headers_def upper_def upper_char_def small_letters_def capital_letters_def)
  have e: "identity_entry ''Zip'' = JObj [(''source'', JStr ''ZIP''), (''destination'', JStr ''ZIP'')]"
    "identity_entry ''ZIP'' = JObj [(''source'', JStr ''ZIP''), (''destination'', JStr ''ZIP'')]"
    by (simp_all add: identity_entry_def upper_def upper_char_def small_letters_def capital_letters_def)
  show ?thesis
    using add_missing_sources_one_pass
            [THEN conjunct2, rule_format, of ?items "[''City'']" "[''Zip'', ''city'', ''ZIP'']", OF s]
    by (simp add: m e)
qed

end
